theory Spec2Isabelle
  imports Complex_Main "HOL-Library.Product_Lexorder" "HOL-Library.Multiset"
begin

section \<open>Values shared by the models\<close>

text \<open>
  Amounts are JavaScript numbers in the source. They are modelled as exact rationals:
  rounding of binary floating point is outside the model, and an amount that reaches
  a service is a finite number. The one place where the source can leave the finite
  numbers, the division in the goal progress formula, is modelled explicitly below.
\<close>

type_synonym objectId = nat

text \<open>
  A JavaScript \<open>Date\<close>: the instant (\<open>getTime\<close>, milliseconds since the epoch),
  carried together with the two calendar projections the source reads from it
  (\<open>getMonth\<close> is 0-based, as in JavaScript).
\<close>

record jsdate =
  getTime :: int
  getMonth :: nat
  getFullYear :: int

datatype txn_type = income | expense

datatype category_source = src_user | src_ai | src_auto

datatype needs_wants = needs | wants | unknown

datatype nw_source = nw_user | nw_ai

datatype payment_method = cash | card | bank_transfer | digital_wallet | other

datatype error =
    ValidationError string
  | NotFoundError string
  | MongooseValidationError
  | PlainError string
  | AxiosError

text \<open>\<open>String.prototype.trim\<close>, on the ASCII white space characters.\<close>

definition is_space :: "char \<Rightarrow> bool" where
  "is_space c = (c = CHR '' '' \<or> c = CHR 0x09 \<or> c = CHR 0x0A \<or> c = CHR 0x0D)"

definition trim :: "string \<Rightarrow> string" where
  "trim s = rev (dropWhile is_space (rev (dropWhile is_space s)))"

text \<open>Truthiness of an optional string and of an optional number.\<close>

fun truthy_str :: "string option \<Rightarrow> bool" where
  "truthy_str None = False"
| "truthy_str (Some s) = (s \<noteq> [])"

fun truthy_num :: "rat option \<Rightarrow> bool" where
  "truthy_num None = False"
| "truthy_num (Some a) = (a \<noteq> 0)"

section \<open>models/Transaction.js\<close>

record transaction =
  t_id :: objectId
  t_userId :: objectId
  t_type :: txn_type
  t_amount :: rat
  t_description :: string
  t_notes :: string
  t_paymentMethod :: payment_method
  t_date :: jsdate
  t_category :: string
  t_categorySource :: category_source
  t_needsVsWants :: needs_wants
  t_needsVsWantsSource :: nw_source
  t_aiConfidence :: "rat option"
  t_createdAt :: int

text \<open>The virtual \<open>signedAmount\<close>.\<close>

definition signedAmount :: "transaction \<Rightarrow> rat" where
  "signedAmount t = (if t_type t = income then t_amount t else - t_amount t)"

text \<open>
  The static \<open>getByDateRange\<close>: the owner's transactions with
  \<open>startDate \<le> date \<le> endDate\<close>, sorted by date descending.
\<close>

definition getByDateRange ::
  "transaction list \<Rightarrow> objectId \<Rightarrow> jsdate \<Rightarrow> jsdate \<Rightarrow> transaction list" where
  "getByDateRange txns userId startDate endDate =
     sort_key (\<lambda>t. - getTime (t_date t))
       (filter (\<lambda>t. t_userId t = userId
                   \<and> getTime startDate \<le> getTime (t_date t)
                   \<and> getTime (t_date t) \<le> getTime endDate) txns)"

text \<open>
  The schema validators that run when a transaction document is saved: \<open>amount\<close>
  is required with \<open>min: 0\<close>, \<open>description\<close> and \<open>category\<close> are required
  (a required string is non-empty) and bounded in length. The enumerated fields are
  typed, so their \<open>enum\<close> validators always pass.
\<close>

definition transaction_valid :: "transaction \<Rightarrow> bool" where
  "transaction_valid t =
     (0 \<le> t_amount t
      \<and> t_description t \<noteq> [] \<and> length (t_description t) \<le> 500
      \<and> length (t_notes t) \<le> 1000
      \<and> t_category t \<noteq> []
      \<and> (case t_aiConfidence t of None \<Rightarrow> True | Some c \<Rightarrow> 0 \<le> c \<and> c \<le> 1))"

section \<open>models/Budget.js\<close>

record budget =
  b_userId :: objectId
  b_category :: string
  b_month :: nat
  b_year :: int
  b_amount :: rat
  b_spent :: rat
  b_isActive :: bool

definition budget_valid :: "budget \<Rightarrow> bool" where
  "budget_valid b =
     (b_category b \<noteq> []
      \<and> 1 \<le> b_month b \<and> b_month b \<le> 12
      \<and> 2000 \<le> b_year b
      \<and> 0 \<le> b_amount b
      \<and> 0 \<le> b_spent b)"

definition same_bucket :: "objectId \<Rightarrow> string \<Rightarrow> nat \<Rightarrow> int \<Rightarrow> budget \<Rightarrow> bool" where
  "same_bucket userId category month year b =
     (b_userId b = userId \<and> b_category b = category \<and> b_month b = month \<and> b_year b = year)"

text \<open>The key of a row: the fields of the unique index.\<close>

definition bucket_of :: "budget \<Rightarrow> objectId \<times> string \<times> nat \<times> int" where
  "bucket_of b = (b_userId b, b_category b, b_month b, b_year b)"

text \<open>
  \<open>getOrCreate\<close>: \<open>findOne\<close> on the four key fields; when there is no row, one is
  created with \<open>amount = defaultAmount\<close> and the schema default \<open>spent = 0\<close>; the
  creation runs the schema validators and throws when they fail. The schema declares
  \<open>category\<close> with \<open>trim: true\<close>, applied to the filter and to the new row alike.
\<close>

definition getOrCreate ::
  "objectId \<Rightarrow> string \<Rightarrow> nat \<Rightarrow> int \<Rightarrow> rat \<Rightarrow> budget list \<Rightarrow> (error + budget) \<times> budget list" where
  "getOrCreate userId category month year defaultAmount bs =
     (case find (same_bucket userId (trim category) month year) bs of
        Some b \<Rightarrow> (Inr b, bs)
      | None \<Rightarrow>
          (let b = \<lparr> b_userId = userId, b_category = trim category, b_month = month,
                     b_year = year, b_amount = defaultAmount, b_spent = 0,
                     b_isActive = True \<rparr>
           in if budget_valid b then (Inr b, bs @ [b]) else (Inl MongooseValidationError, bs)))"

text \<open>
  \<open>budget.save()\<close> of a row that was read from the collection and whose \<open>spent\<close>
  was assigned: the validator of the modified path (\<open>min: 0\<close>) runs, and the stored
  row is replaced when it passes.
\<close>

fun store_budget :: "budget \<Rightarrow> budget list \<Rightarrow> budget list" where
  "store_budget b' [] = []"
| "store_budget b' (b # bs) =
     (if same_bucket (b_userId b') (b_category b') (b_month b') (b_year b') b
      then b' # bs else b # store_budget b' bs)"

definition save_budget :: "budget \<Rightarrow> budget list \<Rightarrow> (error + budget) \<times> budget list" where
  "save_budget b bs =
     (if 0 \<le> b_spent b then (Inr b, store_budget b bs) else (Inl MongooseValidationError, bs))"

text \<open>
  \<open>updateSpent\<close>: \<open>budget.spent = (budget.spent || 0) + amount\<close>, then save.
  A stored \<open>spent\<close> is a number, so \<open>budget.spent || 0\<close> is \<open>budget.spent\<close>.
\<close>

definition updateSpent ::
  "objectId \<Rightarrow> string \<Rightarrow> nat \<Rightarrow> int \<Rightarrow> rat \<Rightarrow> budget list \<Rightarrow> (error + budget) \<times> budget list" where
  "updateSpent userId category month year amount bs =
     (case getOrCreate userId category month year 0 bs of
        (Inl e, bs') \<Rightarrow> (Inl e, bs')
      | (Inr b, bs') \<Rightarrow> save_budget (b\<lparr> b_spent := b_spent b + amount \<rparr>) bs')"

text \<open>The virtuals \<open>utilization\<close> and \<open>remaining\<close>.\<close>

definition utilization :: "budget \<Rightarrow> rat" where
  "utilization b = (if b_amount b = 0 then 0 else min ((b_spent b / b_amount b) * 100) 100)"

definition remaining :: "budget \<Rightarrow> rat" where
  "remaining b = max (b_amount b - b_spent b) 0"

section \<open>services/mlService.js\<close>

text \<open>The outcome of one HTTP call to the ML service: the promise rejects or resolves.\<close>

datatype 'a response = Rejected | Resolved 'a

record prediction =
  p_category :: string
  p_needsVsWants :: "needs_wants option"
  p_confidence :: "rat option"

text \<open>\<open>predictCategory\<close> catches every failure of the call and returns \<open>null\<close>.\<close>

fun predictCategory :: "prediction response \<Rightarrow> error + prediction option" where
  "predictCategory (Resolved p) = Inr (Some p)"
| "predictCategory Rejected = Inr None"

text \<open>\<open>computeHealthScore\<close> and \<open>generateForecast\<close> log and rethrow.\<close>

fun computeHealthScore :: "'a response \<Rightarrow> error + 'a" where
  "computeHealthScore (Resolved h) = Inr h"
| "computeHealthScore Rejected = Inl AxiosError"

fun generateForecast :: "'a response \<Rightarrow> error + 'a" where
  "generateForecast (Resolved f) = Inr f"
| "generateForecast Rejected = Inl AxiosError"

section \<open>repositories: categoryRepository.js, transactionRepository.js\<close>

text \<open>The category directory: the (owner, name) pairs of the Category collection.\<close>

type_synonym categories = "(objectId \<times> string) list"

definition findByName :: "categories \<Rightarrow> objectId \<Rightarrow> string \<Rightarrow> (objectId \<times> string) option" where
  "findByName cats userId name = find (\<lambda>c. c = (userId, trim name)) cats"

text \<open>
  The state the transaction service works on: the Transaction collection, the Budget
  collection, and the next fresh document id.
\<close>

record ledger =
  transactions :: "transaction list"
  budgets :: "budget list"
  nextId :: objectId

definition repo_create :: "transaction \<Rightarrow> jsdate \<Rightarrow> ledger \<Rightarrow> (error + transaction) \<times> ledger" where
  "repo_create t now s =
     (let doc = t\<lparr> t_id := nextId s,
                    t_description := trim (t_description t),
                    t_notes := trim (t_notes t),
                    t_category := trim (t_category t),
                    t_createdAt := getTime now \<rparr>
      in if transaction_valid doc
         then (Inr doc, s\<lparr> transactions := transactions s @ [doc], nextId := Suc (nextId s) \<rparr>)
         else (Inl MongooseValidationError, s))"

definition findById :: "transaction list \<Rightarrow> objectId \<Rightarrow> error + transaction" where
  "findById txns i =
     (case find (\<lambda>t. t_id t = i) txns of
        None \<Rightarrow> Inl (NotFoundError ''Transaction'')
      | Some t \<Rightarrow> Inr t)"

text \<open>The body of a PUT request: every field is optional.\<close>

record updateData =
  u_amount :: "rat option"
  u_category :: "string option"
  u_date :: "jsdate option"
  u_type :: "txn_type option"
  u_description :: "string option"
  u_notes :: "string option"
  u_paymentMethod :: "payment_method option"

text \<open>\<open>{ $set: updateData }\<close>: the supplied fields replace the stored ones.\<close>

definition apply_set :: "updateData \<Rightarrow> transaction \<Rightarrow> transaction" where
  "apply_set u t =
     t\<lparr> t_amount := (case u_amount u of None \<Rightarrow> t_amount t | Some a \<Rightarrow> a),
        t_category := (case u_category u of None \<Rightarrow> t_category t | Some c \<Rightarrow> trim c),
        t_date := (case u_date u of None \<Rightarrow> t_date t | Some d \<Rightarrow> d),
        t_type := (case u_type u of None \<Rightarrow> t_type t | Some y \<Rightarrow> y),
        t_description := (case u_description u of None \<Rightarrow> t_description t | Some d \<Rightarrow> trim d),
        t_notes := (case u_notes u of None \<Rightarrow> t_notes t | Some n \<Rightarrow> trim n),
        t_paymentMethod := (case u_paymentMethod u of None \<Rightarrow> t_paymentMethod t | Some m \<Rightarrow> m) \<rparr>"

text \<open>
  \<open>runValidators: true\<close>: the validators of the paths named in the update. Required
  validators do not run on \<open>$set\<close>.
\<close>

definition update_valid :: "updateData \<Rightarrow> bool" where
  "update_valid u =
     ((case u_amount u of None \<Rightarrow> True | Some a \<Rightarrow> 0 \<le> a)
      \<and> (case u_description u of None \<Rightarrow> True | Some d \<Rightarrow> length (trim d) \<le> 500)
      \<and> (case u_notes u of None \<Rightarrow> True | Some n \<Rightarrow> length (trim n) \<le> 1000))"

fun set_by_id :: "objectId \<Rightarrow> updateData \<Rightarrow> transaction list \<Rightarrow> transaction list" where
  "set_by_id i u [] = []"
| "set_by_id i u (t # ts) = (if t_id t = i then apply_set u t # ts else t # set_by_id i u ts)"

definition repo_update ::
  "objectId \<Rightarrow> updateData \<Rightarrow> transaction list \<Rightarrow> (error + transaction) \<times> transaction list" where
  "repo_update i u txns =
     (if \<not> update_valid u then (Inl MongooseValidationError, txns)
      else case find (\<lambda>t. t_id t = i) txns of
             None \<Rightarrow> (Inl (NotFoundError ''Transaction''), txns)
           | Some t \<Rightarrow> (Inr (apply_set u t), set_by_id i u txns))"

fun remove_by_id :: "objectId \<Rightarrow> transaction list \<Rightarrow> transaction list" where
  "remove_by_id i [] = []"
| "remove_by_id i (t # ts) = (if t_id t = i then ts else t # remove_by_id i ts)"

definition repo_delete ::
  "objectId \<Rightarrow> transaction list \<Rightarrow> (error + transaction) \<times> transaction list" where
  "repo_delete i txns =
     (case find (\<lambda>t. t_id t = i) txns of
        None \<Rightarrow> (Inl (NotFoundError ''Transaction''), txns)
      | Some t \<Rightarrow> (Inr t, remove_by_id i txns))"

section \<open>services/transactionService.js\<close>

text \<open>The body of a POST request, after the route's validators.\<close>

record transactionData =
  d_amount :: rat
  d_description :: string
  d_type :: txn_type
  d_date :: "jsdate option"
  d_category :: "string option"
  d_notes :: "string option"
  d_paymentMethod :: "payment_method option"

definition category_missing :: "string \<Rightarrow> string" where
  "category_missing c = ''Category '' @ [CHR 0x22] @ c @ [CHR 0x22] @ '' does not exist''"

text \<open>
  \<open>create\<close>, block by block. \<open>ml\<close> is what the call to the category predictor does
  if it is made, \<open>now\<close> is the value of \<open>new Date()\<close>.
\<close>

text \<open>The object literal \<open>transaction\<close>.\<close>

definition prepare :: "jsdate \<Rightarrow> objectId \<Rightarrow> transactionData \<Rightarrow> transaction" where
  "prepare now userId d =
     \<lparr> t_id = 0,
       t_userId = userId,
       t_type = d_type d,
       t_amount = d_amount d,
       t_description = trim (d_description d),
       t_notes = (case d_notes d of None \<Rightarrow> [] | Some n \<Rightarrow> trim n),
       t_paymentMethod = (case d_paymentMethod d of None \<Rightarrow> card | Some m \<Rightarrow> m),
       t_date = (case d_date d of None \<Rightarrow> now | Some dt \<Rightarrow> dt),
       t_category = (case d_category d of
                       None \<Rightarrow> ''Other Expense''
                     | Some c \<Rightarrow> if c \<noteq> [] then c else ''Other Expense''),
       t_categorySource = (if truthy_str (d_category d) then src_user else src_auto),
       t_needsVsWants = unknown,
       t_needsVsWantsSource = nw_user,
       t_aiConfidence = None,
       t_createdAt = 0 \<rparr>"

text \<open>
  The block \<open>if (!category) { try { ... } catch (error) { ... } }\<close>: the three
  branches are a prediction, \<open>null\<close>, and an exception thrown by \<open>predictCategory\<close>.
\<close>

definition categorise :: "prediction response \<Rightarrow> transactionData \<Rightarrow> transaction \<Rightarrow> transaction" where
  "categorise ml d transaction =
     (if \<not> truthy_str (d_category d) then
        (case predictCategory ml of
           Inr (Some p) \<Rightarrow>
             transaction\<lparr> t_category := p_category p,
                           t_categorySource := src_ai,
                           t_needsVsWants := (case p_needsVsWants p of None \<Rightarrow> unknown | Some v \<Rightarrow> v),
                           t_needsVsWantsSource := nw_ai,
                           t_aiConfidence :=
                             (if truthy_num (p_confidence p) then p_confidence p else None) \<rparr>
         | Inr None \<Rightarrow> transaction
         | Inl e \<Rightarrow>
             transaction\<lparr> t_category :=
               (if d_type d = income then ''Other Income'' else ''Other Expense'') \<rparr>)
      else transaction)"

text \<open>The block \<open>Update budget if it's an expense\<close>.\<close>

definition charge :: "objectId \<Rightarrow> txn_type \<Rightarrow> transaction \<Rightarrow> budget list \<Rightarrow> (error + unit) \<times> budget list" where
  "charge userId type created bs =
     (if type = expense \<and> t_category created \<noteq> [] then
        (case updateSpent userId (t_category created)
                (getMonth (t_date created) + 1) (getFullYear (t_date created))
                (t_amount created) bs of
           (Inl e, bs') \<Rightarrow> (Inl e, bs')
         | (Inr b, bs') \<Rightarrow> (Inr (), bs'))
      else (Inr (), bs))"

definition create ::
  "categories \<Rightarrow> prediction response \<Rightarrow> jsdate \<Rightarrow> objectId \<Rightarrow> transactionData \<Rightarrow> ledger
     \<Rightarrow> (error + transaction) \<times> ledger" where
  "create cats ml now userId d s =
     (case (case d_category d of
              None \<Rightarrow> None
            | Some c \<Rightarrow> if c \<noteq> [] \<and> findByName cats userId c = None then Some c else None) of
        Some c \<Rightarrow> (Inl (ValidationError (category_missing c)), s)
      | None \<Rightarrow>
         (case repo_create (categorise ml d (prepare now userId d)) now s of
            (Inl e, s') \<Rightarrow> (Inl e, s')
          | (Inr created, s') \<Rightarrow>
              (case charge userId (d_type d) created (budgets s') of
                 (Inl e, bs) \<Rightarrow> (Inl e, s'\<lparr> budgets := bs \<rparr>)
               | (Inr x, bs) \<Rightarrow> (Inr created, s'\<lparr> budgets := bs \<rparr>))))"

definition getById :: "objectId \<Rightarrow> objectId \<Rightarrow> transaction list \<Rightarrow> error + transaction" where
  "getById userId transactionId txns =
     (case findById txns transactionId of
        Inl e \<Rightarrow> Inl e
      | Inr t \<Rightarrow> if t_userId t \<noteq> userId then Inl (NotFoundError ''Transaction'') else Inr t)"

text \<open>
  The block \<open>Revert old budget entry\<close> of \<open>update\<close>, which \<open>delete\<close> repeats:
  \<open>-amount\<close> on the row of the stored category, month and year, for an expense.
\<close>

definition revert :: "objectId \<Rightarrow> transaction \<Rightarrow> budget list \<Rightarrow> (error + unit) \<times> budget list" where
  "revert userId existing bs =
     (if t_type existing = expense then
        (case updateSpent userId (t_category existing)
                (getMonth (t_date existing) + 1) (getFullYear (t_date existing))
                (- t_amount existing) bs of
           (Inl e, bs') \<Rightarrow> (Inl e, bs')
         | (Inr b, bs') \<Rightarrow> (Inr (), bs'))
      else (Inr (), bs))"

text \<open>
  The block \<open>Apply new budget entry\<close> of \<open>update\<close>:
  \<open>newAmount = updateData.amount || existing.amount\<close>, likewise the category, and
  \<open>newDate = updateData.date ? new Date(updateData.date) : oldDate\<close>.
\<close>

definition newAmount :: "updateData \<Rightarrow> transaction \<Rightarrow> rat" where
  "newAmount u existing =
     (case u_amount u of None \<Rightarrow> t_amount existing
      | Some a \<Rightarrow> if a \<noteq> 0 then a else t_amount existing)"

definition newCategory :: "updateData \<Rightarrow> transaction \<Rightarrow> string" where
  "newCategory u existing =
     (case u_category u of None \<Rightarrow> t_category existing
      | Some c \<Rightarrow> if c \<noteq> [] then c else t_category existing)"

definition newDate :: "updateData \<Rightarrow> transaction \<Rightarrow> jsdate" where
  "newDate u existing = (case u_date u of None \<Rightarrow> t_date existing | Some dt \<Rightarrow> dt)"

definition reapply ::
  "objectId \<Rightarrow> updateData \<Rightarrow> transaction \<Rightarrow> budget list \<Rightarrow> (error + unit) \<times> budget list" where
  "reapply userId u existing bs =
     (if t_type existing = expense then
        (case updateSpent userId (newCategory u existing)
                (getMonth (newDate u existing) + 1) (getFullYear (newDate u existing))
                (newAmount u existing) bs of
           (Inl e, bs') \<Rightarrow> (Inl e, bs')
         | (Inr b, bs') \<Rightarrow> (Inr (), bs'))
      else (Inr (), bs))"

text \<open>
  The whole block under the guard \<open>updateData.category || updateData.amount\<close>: with
  the guard false the ledger is not touched.
\<close>

definition adjust ::
  "objectId \<Rightarrow> updateData \<Rightarrow> transaction \<Rightarrow> budget list \<Rightarrow> (error + unit) \<times> budget list" where
  "adjust userId u existing bs =
     (if truthy_str (u_category u) \<or> truthy_num (u_amount u) then
        (case revert userId existing bs of
           (Inl e, bs') \<Rightarrow> (Inl e, bs')
         | (Inr x, bs') \<Rightarrow> reapply userId u existing bs')
      else (Inr (), bs))"

definition update ::
  "objectId \<Rightarrow> objectId \<Rightarrow> updateData \<Rightarrow> ledger \<Rightarrow> (error + transaction) \<times> ledger" where
  "update userId transactionId u s =
     (case getById userId transactionId (transactions s) of
        Inl e \<Rightarrow> (Inl e, s)
      | Inr existing \<Rightarrow>
          (case adjust userId u existing (budgets s) of
             (Inl e, bs) \<Rightarrow> (Inl e, s\<lparr> budgets := bs \<rparr>)
           | (Inr x, bs) \<Rightarrow>
               (let updated = repo_update transactionId u (transactions s)
                in (fst updated, s\<lparr> transactions := snd updated, budgets := bs \<rparr>))))"

text \<open>\<open>delete\<close>: the contribution of an expense is reverted, then the record is removed.\<close>

definition delete ::
  "objectId \<Rightarrow> objectId \<Rightarrow> ledger \<Rightarrow> (error + transaction) \<times> ledger" where
  "delete userId transactionId s =
     (case getById userId transactionId (transactions s) of
        Inl e \<Rightarrow> (Inl e, s)
      | Inr t \<Rightarrow>
          (case revert userId t (budgets s) of
             (Inl e, bs) \<Rightarrow> (Inl e, s\<lparr> budgets := bs \<rparr>)
           | (Inr x, bs) \<Rightarrow>
               (let removed = repo_delete transactionId (transactions s)
                in (fst removed, s\<lparr> transactions := snd removed, budgets := bs \<rparr>))))"

text \<open>
  A sequence of calls on the service. A call that throws keeps the writes it made
  before throwing: the source runs no transaction around them.
\<close>

datatype op =
    Create objectId transactionData "prediction response" jsdate
  | Update objectId objectId updateData
  | Delete objectId objectId

fun step :: "categories \<Rightarrow> op \<Rightarrow> ledger \<Rightarrow> ledger" where
  "step cats (Create userId d ml now) s = snd (create cats ml now userId d s)"
| "step cats (Update userId i u) s = snd (update userId i u s)"
| "step cats (Delete userId i) s = snd (delete userId i s)"

fun run :: "categories \<Rightarrow> op list \<Rightarrow> ledger \<Rightarrow> ledger" where
  "run cats [] s = s"
| "run cats (x # xs) s = run cats xs (step cats x s)"

definition empty_ledger :: ledger where
  "empty_ledger = \<lparr> transactions = [], budgets = [], nextId = 0 \<rparr>"

text \<open>
  The two sides of the ledger invariant for one bucket: the stored \<open>spent\<close> of the row
  (0 when there is no row), and the sum of the amounts of the expense transactions of
  that owner, category, month and year that exist.
\<close>

definition spent_of :: "budget list \<Rightarrow> objectId \<Rightarrow> string \<Rightarrow> nat \<Rightarrow> int \<Rightarrow> rat" where
  "spent_of bs userId category month year =
     (case find (same_bucket userId category month year) bs of
        None \<Rightarrow> 0
      | Some b \<Rightarrow> b_spent b)"

definition in_bucket :: "objectId \<Rightarrow> string \<Rightarrow> nat \<Rightarrow> int \<Rightarrow> transaction \<Rightarrow> bool" where
  "in_bucket userId category month year t =
     (t_userId t = userId \<and> t_type t = expense \<and> t_category t = category
      \<and> getMonth (t_date t) + 1 = month \<and> getFullYear (t_date t) = year)"

definition expense_total :: "transaction list \<Rightarrow> objectId \<Rightarrow> string \<Rightarrow> nat \<Rightarrow> int \<Rightarrow> rat" where
  "expense_total txns userId category month year =
     sum_list (map t_amount (filter (in_bucket userId category month year) txns))"

definition ledger_nonneg :: "budget list \<Rightarrow> bool" where
  "ledger_nonneg bs = list_all (\<lambda>b. 0 \<le> b_spent b) bs"

text \<open>
  The ledger invariant: in every bucket the stored \<open>spent\<close> is the total of the
  expenses that exist there; and the stored categories are trimmed, as the schema's
  setter leaves them.
\<close>

definition ledger_consistent :: "ledger \<Rightarrow> bool" where
  "ledger_consistent s =
     ((\<forall>v c m y. spent_of (budgets s) v c m y = expense_total (transactions s) v c m y)
      \<and> (\<forall>t \<in> set (transactions s). trim (t_category t) = t_category t))"

text \<open>What one transaction adds to the expense total of a bucket.\<close>

definition contribution :: "transaction \<Rightarrow> objectId \<Rightarrow> string \<Rightarrow> nat \<Rightarrow> int \<Rightarrow> rat" where
  "contribution t v c m y = (if in_bucket v c m y t then t_amount t else 0)"

text \<open>
  An update body that passes the guard of \<open>update\<close>, changes no type and carries
  neither the amount 0 nor an empty category.
\<close>

definition plain_update :: "updateData \<Rightarrow> bool" where
  "plain_update u =
     ((truthy_str (u_category u) \<or> truthy_num (u_amount u))
      \<and> u_amount u \<noteq> Some 0 \<and> u_category u \<noteq> Some [] \<and> u_type u = None)"

section \<open>repositories/transactionRepository.js: findByUserId\<close>





text \<open>\<open>sort({ date: -1, createdAt: -1 })\<close>: ascending on the negated pair.\<close>

definition sort_desc :: "transaction list \<Rightarrow> transaction list" where
  "sort_desc ts = sort_key (\<lambda>t. (- getTime (t_date t), - t_createdAt t)) ts"





section \<open>models/Goal.js and services/goalService.js\<close>

datatype goal_type = spending_cap | savings_target | category_limit | custom

datatype goal_status = active | completed | failed | paused

record goal =
  g_id :: objectId
  g_userId :: objectId
  g_title :: string
  g_type :: goal_type
  g_targetValue :: rat
  g_currentValue :: rat
  g_startDate :: jsdate
  g_endDate :: jsdate
  g_status :: goal_status
  g_progress :: rat

text \<open>
  The value of a JavaScript arithmetic expression over finite operands: a finite
  number, an infinity, or NaN. Division by zero does not throw.
\<close>

datatype jsnum = Finite rat | PosInfinity | NegInfinity | NaN

definition js_div :: "rat \<Rightarrow> rat \<Rightarrow> jsnum" where
  "js_div a b =
     (if b \<noteq> 0 then Finite (a / b)
      else if 0 < a then PosInfinity
      else if a < 0 then NegInfinity
      else NaN)"

fun js_times :: "jsnum \<Rightarrow> rat \<Rightarrow> jsnum" where
  "js_times (Finite x) k = Finite (x * k)"
| "js_times PosInfinity k = (if 0 < k then PosInfinity else if k < 0 then NegInfinity else NaN)"
| "js_times NegInfinity k = (if 0 < k then NegInfinity else if k < 0 then PosInfinity else NaN)"
| "js_times NaN k = NaN"

text \<open>\<open>Math.min(x, k)\<close> for a finite \<open>k\<close>.\<close>

fun js_min :: "jsnum \<Rightarrow> rat \<Rightarrow> jsnum" where
  "js_min (Finite x) k = Finite (min x k)"
| "js_min PosInfinity k = Finite k"
| "js_min NegInfinity k = NegInfinity"
| "js_min NaN k = NaN"

text \<open>\<open>x >= k\<close>: every comparison with NaN is false.\<close>

fun js_ge :: "jsnum \<Rightarrow> rat \<Rightarrow> bool" where
  "js_ge (Finite x) k = (k \<le> x)"
| "js_ge PosInfinity k = True"
| "js_ge NegInfinity k = False"
| "js_ge NaN k = False"

text \<open>\<open>Math.min((currentValue / targetValue) * 100, 100)\<close>.\<close>

definition progress_of :: "rat \<Rightarrow> rat \<Rightarrow> jsnum" where
  "progress_of currentValue targetValue = js_min (js_times (js_div currentValue targetValue) 100) 100"

text \<open>
  \<open>goal.save()\<close> after \<open>currentValue\<close>, \<open>progress\<close> and \<open>status\<close> were assigned.
  The schema gives \<open>currentValue\<close> \<open>min: 0\<close> and \<open>progress\<close> \<open>min: 0, max: 100\<close>;
  NaN and the infinities fail them (NaN fails already the cast to Number), and the
  save then rejects without writing.
\<close>

fun store_goal :: "goal \<Rightarrow> goal list \<Rightarrow> goal list" where
  "store_goal g' [] = []"
| "store_goal g' (g # gs) = (if g_id g = g_id g' then g' # gs else g # store_goal g' gs)"

text \<open>The three assignments, for a finite \<open>progress\<close>.\<close>

definition assign_progress :: "goal \<Rightarrow> rat \<Rightarrow> rat \<Rightarrow> goal" where
  "assign_progress g currentValue p =
     g\<lparr> g_currentValue := currentValue,
        g_progress := p,
        g_status := (if js_ge (Finite p) 100 \<and> g_status g = active
                     then completed else g_status g) \<rparr>"

definition save_progress ::
  "goal \<Rightarrow> rat \<Rightarrow> jsnum \<Rightarrow> goal list \<Rightarrow> (error + goal) \<times> goal list" where
  "save_progress g currentValue progress gs =
     (case progress of
        Finite p \<Rightarrow>
          if 0 \<le> currentValue \<and> 0 \<le> p \<and> p \<le> 100
          then (Inr (assign_progress g currentValue p),
                store_goal (assign_progress g currentValue p) gs)
          else (Inl MongooseValidationError, gs)
      | PosInfinity \<Rightarrow> (Inl MongooseValidationError, gs)
      | NegInfinity \<Rightarrow> (Inl MongooseValidationError, gs)
      | NaN \<Rightarrow> (Inl MongooseValidationError, gs))"

text \<open>The schema method \<open>updateProgress(currentValue)\<close> of a loaded goal.\<close>

definition goal_updateProgress :: "rat \<Rightarrow> goal \<Rightarrow> goal list \<Rightarrow> (error + goal) \<times> goal list" where
  "goal_updateProgress currentValue g gs =
     save_progress g currentValue (progress_of currentValue (g_targetValue g)) gs"

definition goal_getById :: "objectId \<Rightarrow> objectId \<Rightarrow> goal list \<Rightarrow> error + goal" where
  "goal_getById userId goalId gs =
     (case find (\<lambda>g. g_id g = goalId) gs of
        None \<Rightarrow> Inl (PlainError ''Goal not found'')
      | Some g \<Rightarrow> if g_userId g \<noteq> userId then Inl (PlainError ''Goal not found'') else Inr g)"

text \<open>\<open>.filter((t) => t.type === y).reduce((sum, t) => sum + t.amount, 0)\<close>.\<close>

definition sum_of_type :: "txn_type \<Rightarrow> transaction list \<Rightarrow> rat" where
  "sum_of_type y ts = foldl (\<lambda>sum t. sum + t_amount t) 0 (filter (\<lambda>t. t_type t = y) ts)"

text \<open>The local variable \<open>currentValue\<close> of the service's \<open>updateProgress\<close>.\<close>

definition computed_value :: "objectId \<Rightarrow> goal \<Rightarrow> transaction list \<Rightarrow> rat" where
  "computed_value userId g txns =
     (if g_type g = spending_cap \<or> g_type g = category_limit then
        sum_of_type expense (getByDateRange txns userId (g_startDate g) (g_endDate g))
      else if g_type g = savings_target then
        sum_of_type income (getByDateRange txns userId (g_startDate g) (g_endDate g))
          - sum_of_type expense (getByDateRange txns userId (g_startDate g) (g_endDate g))
      else 0)"

definition updateProgress ::
  "transaction list \<Rightarrow> objectId \<Rightarrow> objectId \<Rightarrow> goal list \<Rightarrow> (error + goal) \<times> goal list" where
  "updateProgress txns userId goalId gs =
     (case goal_getById userId goalId gs of
        Inl e \<Rightarrow> (Inl e, gs)
      | Inr g \<Rightarrow>
          (let currentValue = max (computed_value userId g txns) 0
           in save_progress g currentValue (progress_of currentValue (g_targetValue g)) gs))"

section \<open>The trailing window of the compute pipelines\<close>

text \<open>
  \<open>startDate.setDate(startDate.getDate() - n)\<close> on a copy of \<open>now\<close>: the instant
  \<open>n\<close> days earlier. Only its \<open>getTime\<close> is read by \<open>getByDateRange\<close>.
\<close>

definition days_before :: "nat \<Rightarrow> jsdate \<Rightarrow> jsdate" where
  "days_before n now = now\<lparr> getTime := getTime now - int n * 86400000 \<rparr>"

section \<open>models/Forecast.js and services/forecastService.js\<close>

datatype forecast_type = day7 | day14 | day30

datatype risk = low | medium | high

record prediction_point =
  pp_date :: jsdate
  pp_predictedAmount :: rat
  pp_lowerBound :: rat
  pp_upperBound :: rat
  pp_confidence :: rat

text \<open>The body of the Forecast Predictor's answer; a field it leaves out is \<open>None\<close>.\<close>

record forecastData =
  fd_predictions :: "prediction_point list"
  fd_riskIndicator :: "risk option"
  fd_riskScore :: "rat option"

record forecast =
  fc_userId :: objectId
  fc_forecastType :: forecast_type
  fc_startDate :: jsdate
  fc_predictions :: "prediction_point list"
  fc_riskIndicator :: risk
  fc_riskScore :: "rat option"
  fc_computedAt :: jsdate

text \<open>One entry of the history sent to the predictor: \<open>amount\<close> is the signed amount.\<close>

record history_item =
  h_amount :: rat
  h_date :: jsdate
  h_type :: txn_type
  h_category :: string

definition forecast_history :: "transaction list \<Rightarrow> history_item list" where
  "forecast_history ts =
     map (\<lambda>t. \<lparr> h_amount = signedAmount t, h_date = t_date t, h_type = t_type t,
                  h_category = t_category t \<rparr>) ts"

definition forecast_valid :: "forecast \<Rightarrow> bool" where
  "forecast_valid f = (case fc_riskScore f of None \<Rightarrow> True | Some r \<Rightarrow> 0 \<le> r \<and> r \<le> 100)"

definition insufficient_history :: string where
  "insufficient_history = ''Insufficient transaction history for forecasting (minimum 30 days)''"

text \<open>
  \<open>generateAndStore\<close>. \<open>ml\<close> maps the history that is sent to what the Forecast
  Predictor does with it. The \<open>catch\<close> logs and rethrows, so every error leaves
  as it was thrown.
\<close>

definition generateAndStore ::
  "(history_item list \<Rightarrow> forecastData response) \<Rightarrow> jsdate \<Rightarrow> transaction list
     \<Rightarrow> objectId \<Rightarrow> forecast_type \<Rightarrow> forecast list \<Rightarrow> (error + forecast) \<times> forecast list" where
  "generateAndStore ml now txns userId forecastType fs =
     (let transactions = getByDateRange txns userId (days_before 90 now) now
      in if length transactions < 30 then (Inl (PlainError insufficient_history), fs)
         else
           (case generateForecast (ml (forecast_history transactions)) of
              Inl e \<Rightarrow> (Inl e, fs)
            | Inr forecastData \<Rightarrow>
                (let forecast =
                       \<lparr> fc_userId = userId,
                         fc_forecastType = forecastType,
                         fc_startDate = now,
                         fc_predictions = fd_predictions forecastData,
                         fc_riskIndicator =
                           (case fd_riskIndicator forecastData of None \<Rightarrow> medium | Some r \<Rightarrow> r),
                         fc_riskScore = fd_riskScore forecastData,
                         fc_computedAt = now \<rparr>
                 in if forecast_valid forecast then (Inr forecast, fs @ [forecast])
                    else (Inl MongooseValidationError, fs))))"

text \<open>
  The number of calendar days of the window on which the owner has a transaction: the
  quantity the error message of \<open>generateAndStore\<close> names (\<open>minimum 30 days\<close>).
  A day is the instant divided by the milliseconds of a day.
\<close>

definition days_of_history :: "transaction list \<Rightarrow> nat" where
  "days_of_history ts = length (remdups (map (\<lambda>t. getTime (t_date t) div 86400000) ts))"

section \<open>models/FinancialHealth.js and services/healthScoreService.js\<close>

record user =
  usr_id :: objectId
  usr_monthlyIncome :: rat
  usr_currency :: string

record health_item =
  hi_amount :: rat
  hi_type :: txn_type
  hi_category :: string
  hi_date :: jsdate
  hi_description :: string

text \<open>The body of the Health Predictor's answer; each sub-score is a name, a score and a weight.\<close>

record healthData =
  hd_overallScore :: "rat option"
  hd_subScores :: "(string \<times> rat \<times> rat) list"
  hd_explanation :: string
  hd_recommendations :: "string list"

record financialHealth =
  fh_userId :: objectId
  fh_date :: jsdate
  fh_overallScore :: rat
  fh_subScores :: "(string \<times> rat \<times> rat) list"
  fh_explanation :: string
  fh_recommendations :: "string list"

definition user_findById :: "user list \<Rightarrow> objectId \<Rightarrow> error + user" where
  "user_findById users i =
     (case find (\<lambda>u. usr_id u = i) users of
        None \<Rightarrow> Inl (NotFoundError ''User'')
      | Some u \<Rightarrow> Inr u)"

definition health_history :: "transaction list \<Rightarrow> health_item list" where
  "health_history ts =
     map (\<lambda>t. \<lparr> hi_amount = t_amount t, hi_type = t_type t, hi_category = t_category t,
                  hi_date = t_date t, hi_description = t_description t \<rparr>) ts"

text \<open>
  The validators of a new FinancialHealth document: \<open>overallScore\<close> is required and
  within 0 and 100, \<open>explanation\<close> is required, each sub-score is within 0 and 100.
\<close>

definition health_valid :: "healthData \<Rightarrow> bool" where
  "health_valid h =
     ((case hd_overallScore h of None \<Rightarrow> False | Some v \<Rightarrow> 0 \<le> v \<and> v \<le> 100)
      \<and> hd_explanation h \<noteq> []
      \<and> list_all (\<lambda>(name, score, weight). 0 \<le> score \<and> score \<le> 100) (hd_subScores h))"

text \<open>
  \<open>computeAndStore\<close>. \<open>ml\<close> maps the history and the profile that are sent to what
  the Health Predictor does with them.
\<close>

definition computeAndStore ::
  "(health_item list \<Rightarrow> user \<Rightarrow> healthData response) \<Rightarrow> jsdate \<Rightarrow> user list \<Rightarrow> transaction list
     \<Rightarrow> objectId \<Rightarrow> financialHealth list \<Rightarrow> (error + financialHealth) \<times> financialHealth list" where
  "computeAndStore ml now users txns userId hs =
     (case user_findById users userId of
        Inl e \<Rightarrow> (Inl e, hs)
      | Inr user \<Rightarrow>
          (let transactions = getByDateRange txns userId (days_before 90 now) now
           in case computeHealthScore (ml (health_history transactions) user) of
                Inl e \<Rightarrow> (Inl e, hs)
              | Inr healthData \<Rightarrow>
                  if health_valid healthData then
                    (let healthScore =
                           \<lparr> fh_userId = userId,
                             fh_date = now,
                             fh_overallScore =
                               (case hd_overallScore healthData of None \<Rightarrow> 0 | Some v \<Rightarrow> v),
                             fh_subScores = hd_subScores healthData,
                             fh_explanation = hd_explanation healthData,
                             fh_recommendations = hd_recommendations healthData \<rparr>
                     in (Inr healthScore, hs @ [healthScore]))
                  else (Inl MongooseValidationError, hs)))"

section \<open>Concrete inputs\<close>

text \<open>15 January 2024 and 10 February 2024, at midnight UTC.\<close>

definition ex_jan15 :: jsdate where
  "ex_jan15 = \<lparr> getTime = 1705276800000, getMonth = 0, getFullYear = 2024 \<rparr>"

definition ex_feb10 :: jsdate where
  "ex_feb10 = \<lparr> getTime = 1707523200000, getMonth = 1, getFullYear = 2024 \<rparr>"

definition ex_cats :: categories where
  "ex_cats = [(7, ''Food''), (7, ''Rent'')]"

text \<open>An expense of 100 in Food on 15 January, as posted and as stored.\<close>

definition ex_expense :: transactionData where
  "ex_expense = \<lparr> d_amount = 100, d_description = ''Groceries'', d_type = expense,
                   d_date = Some ex_jan15, d_category = Some ''Food'', d_notes = None,
                   d_paymentMethod = None \<rparr>"

definition ex_txn :: transaction where
  "ex_txn = \<lparr> t_id = 0, t_userId = 7, t_type = expense, t_amount = 100,
               t_description = ''Groceries'', t_notes = [], t_paymentMethod = card,
               t_date = ex_jan15, t_category = ''Food'', t_categorySource = src_user,
               t_needsVsWants = unknown, t_needsVsWantsSource = nw_user,
               t_aiConfidence = None, t_createdAt = 1705276800000 \<rparr>"

definition ex_row :: budget where
  "ex_row = \<lparr> b_userId = 7, b_category = ''Food'', b_month = 1, b_year = 2024,
               b_amount = 0, b_spent = 100, b_isActive = True \<rparr>"

definition ex_ledger :: ledger where
  "ex_ledger = \<lparr> transactions = [ex_txn], budgets = [ex_row], nextId = 1 \<rparr>"

text \<open>An income of 5000 posted without a category.\<close>

definition ex_income :: transactionData where
  "ex_income = \<lparr> d_amount = 5000, d_description = ''Salary'', d_type = income,
                  d_date = Some ex_jan15, d_category = None, d_notes = None,
                  d_paymentMethod = None \<rparr>"

text \<open>The empty PUT body, and the body that carries only a date.\<close>

definition ex_no_change :: updateData where
  "ex_no_change = \<lparr> u_amount = None, u_category = None, u_date = None, u_type = None,
                     u_description = None, u_notes = None, u_paymentMethod = None \<rparr>"

definition ex_date_only :: updateData where
  "ex_date_only = ex_no_change\<lparr> u_date := Some ex_feb10 \<rparr>"

text \<open>A second expense of the same owner: 900 in Rent on 15 January.\<close>

definition ex_rent :: transaction where
  "ex_rent = ex_txn\<lparr> t_id := 1, t_amount := 900, t_description := ''Flat'',
                        t_category := ''Rent'' \<rparr>"

text \<open>\<open>n\<close> copies of the Food expense, all on 15 January, with ids \<open>0\<close> to \<open>n - 1\<close>.\<close>

definition ex_same_day :: "nat \<Rightarrow> transaction list" where
  "ex_same_day n = map (\<lambda>i. ex_txn\<lparr> t_id := i \<rparr>) [0..<n]"

definition ex_forecastData :: forecastData where
  "ex_forecastData = \<lparr> fd_predictions = [], fd_riskIndicator = Some low, fd_riskScore = Some 10 \<rparr>"

definition ex_forecast :: forecast where
  "ex_forecast = \<lparr> fc_userId = 7, fc_forecastType = day30, fc_startDate = ex_feb10,
                    fc_predictions = [], fc_riskIndicator = low, fc_riskScore = Some 10,
                    fc_computedAt = ex_feb10 \<rparr>"

text \<open>Goals of owner 7 over 1 January to 29 February 2024.\<close>

definition ex_goal :: goal where
  "ex_goal = \<lparr> g_id = 3, g_userId = 7, g_title = ''Food limit'', g_type = category_limit,
                g_targetValue = 2000, g_currentValue = 0,
                g_startDate = \<lparr> getTime = 1704067200000, getMonth = 0, getFullYear = 2024 \<rparr>,
                g_endDate = \<lparr> getTime = 1709164800000, getMonth = 1, getFullYear = 2024 \<rparr>,
                g_status = active, g_progress = 0 \<rparr>"

definition ex_zero_goal :: goal where
  "ex_zero_goal = ex_goal\<lparr> g_type := spending_cap, g_targetValue := 0 \<rparr>"

definition ex_user :: user where
  "ex_user = \<lparr> usr_id = 7, usr_monthlyIncome = 5000, usr_currency = ''USD'' \<rparr>"

definition ex_health :: financialHealth where
  "ex_health = \<lparr> fh_userId = 7, fh_date = ex_jan15, fh_overallScore = 80, fh_subScores = [],
                  fh_explanation = ''Good'', fh_recommendations = [] \<rparr>"

text \<open>
  The spec's reading of \<open>category_limit\<close>, for comparison with \<open>computed_value\<close>:
  the expense amounts of one category.
\<close>

definition category_expenses :: "string \<Rightarrow> transaction list \<Rightarrow> rat" where
  "category_expenses c ts =
     sum_list (map t_amount (filter (\<lambda>t. t_type t = expense \<and> t_category t = c) ts))"

text \<open>The owner's transactions inside the window of a goal.\<close>

definition in_window :: "objectId \<Rightarrow> goal \<Rightarrow> transaction \<Rightarrow> bool" where
  "in_window userId g t =
     (t_userId t = userId
      \<and> getTime (g_startDate g) \<le> getTime (t_date t)
      \<and> getTime (t_date t) \<le> getTime (g_endDate g))"

definition window_total :: "txn_type \<Rightarrow> objectId \<Rightarrow> goal \<Rightarrow> transaction list \<Rightarrow> rat" where
  "window_total y userId g txns =
     sum_list (map t_amount (filter (\<lambda>t. in_window userId g t \<and> t_type t = y) txns))"

text \<open>
  The Food expense is created on an empty ledger and then updated: with a body that
  carries only the new date, and with a body that carries only the amount 0.
\<close>

definition ex_moved :: ledger where
  "ex_moved = run ex_cats [Create 7 ex_expense Rejected ex_jan15, Update 7 0 ex_date_only] empty_ledger"

definition ex_zeroed :: ledger where
  "ex_zeroed = run ex_cats [Create 7 ex_expense Rejected ex_jan15,
                            Update 7 0 (ex_no_change\<lparr> u_amount := Some 0 \<rparr>)] empty_ledger"

text \<open>What \<open>create\<close> stores for \<open>ex_income\<close> when the predictor call is rejected.\<close>

definition ex_income_stored :: transaction where
  "ex_income_stored =
     \<lparr> t_id = 0, t_userId = 7, t_type = income, t_amount = 5000,
       t_description = ''Salary'', t_notes = [], t_paymentMethod = card,
       t_date = ex_jan15, t_category = ''Other Expense'', t_categorySource = src_auto,
       t_needsVsWants = unknown, t_needsVsWantsSource = nw_user,
       t_aiConfidence = None, t_createdAt = 1705276800000 \<rparr>"

text \<open>
  The goals after \<open>updateProgress\<close>: the category limit over the Food and the Rent
  expense, a savings target over the two expenses and the income, and a custom goal
  whose owner had set \<open>currentValue\<close> to 40.
\<close>

definition ex_goal_after :: goal where
  "ex_goal_after = ex_goal\<lparr> g_currentValue := 1000, g_progress := 50 \<rparr>"

definition ex_savings :: goal where
  "ex_savings = ex_goal\<lparr> g_type := savings_target \<rparr>"

definition ex_savings_after :: goal where
  "ex_savings_after = ex_savings\<lparr> g_currentValue := 4000, g_progress := 100, g_status := completed \<rparr>"

definition ex_custom :: goal where
  "ex_custom = ex_goal\<lparr> g_type := custom, g_currentValue := 40, g_progress := 2 \<rparr>"

definition ex_custom_after :: goal where
  "ex_custom_after = ex_custom\<lparr> g_currentValue := 0, g_progress := 0 \<rparr>"



section \<open>The ledger never stores a negative \<open>spent\<close>\<close>

lemma store_budget_nonneg:
  "ledger_nonneg bs \<Longrightarrow> 0 \<le> b_spent b' \<Longrightarrow> ledger_nonneg (store_budget b' bs)"
  by (induction bs) (auto simp: ledger_nonneg_def)

lemma getOrCreate_nonneg:
  "ledger_nonneg bs \<Longrightarrow> ledger_nonneg (snd (getOrCreate userId category month year a bs))"
  by (auto simp: getOrCreate_def ledger_nonneg_def Let_def split: option.splits)

lemma updateSpent_nonneg:
  "ledger_nonneg bs \<Longrightarrow> ledger_nonneg (snd (updateSpent userId category month year amount bs))"
  using getOrCreate_nonneg [of bs userId category month year 0]
  by (auto simp: updateSpent_def save_budget_def store_budget_nonneg split: prod.splits sum.splits)

lemma updateSpent_rejects:
  "find (same_bucket userId (trim category) month year) bs = Some b \<Longrightarrow> b_spent b + amount < 0
   \<Longrightarrow> updateSpent userId category month year amount bs = (Inl MongooseValidationError, bs)"
  by (simp add: updateSpent_def getOrCreate_def save_budget_def)

lemma charge_nonneg:
  "charge userId ty t bs = (r, bs') \<Longrightarrow> ledger_nonneg bs \<Longrightarrow> ledger_nonneg bs'"
  using updateSpent_nonneg [of bs userId "t_category t" "getMonth (t_date t) + 1"
      "getFullYear (t_date t)" "t_amount t"]
  by (auto simp: charge_def split: prod.splits sum.splits if_splits)

lemma revert_nonneg:
  "revert userId t bs = (r, bs') \<Longrightarrow> ledger_nonneg bs \<Longrightarrow> ledger_nonneg bs'"
  using updateSpent_nonneg [of bs userId "t_category t" "getMonth (t_date t) + 1"
      "getFullYear (t_date t)" "- t_amount t"]
  by (auto simp: revert_def split: prod.splits sum.splits if_splits)

lemma reapply_nonneg:
  "reapply userId u t bs = (r, bs') \<Longrightarrow> ledger_nonneg bs \<Longrightarrow> ledger_nonneg bs'"
  using updateSpent_nonneg [of bs userId "newCategory u t" "getMonth (newDate u t) + 1"
      "getFullYear (newDate u t)" "newAmount u t"]
  by (auto simp: reapply_def split: prod.splits sum.splits if_splits)

lemma adjust_nonneg:
  "adjust userId u t bs = (r, bs') \<Longrightarrow> ledger_nonneg bs \<Longrightarrow> ledger_nonneg bs'"
  by (auto simp: adjust_def split: prod.splits sum.splits if_splits
           dest: revert_nonneg reapply_nonneg)

lemma repo_create_budgets: "repo_create t now s = (r, s') \<Longrightarrow> budgets s' = budgets s"
  by (auto simp: repo_create_def Let_def split: if_splits)

lemma charge_after_create:
  "repo_create t now s = (r, s') \<Longrightarrow> charge userId ty c (budgets s') = (r', bs)
   \<Longrightarrow> ledger_nonneg (budgets s) \<Longrightarrow> ledger_nonneg bs"
  using repo_create_budgets [of t now s r s'] charge_nonneg [of userId ty c "budgets s" r' bs]
  by simp

lemma create_nonneg:
  "ledger_nonneg (budgets s) \<Longrightarrow> ledger_nonneg (budgets (snd (create cats ml now userId d s)))"
  by (auto simp: create_def split: prod.splits sum.splits option.splits
           dest: repo_create_budgets charge_after_create)

lemma update_nonneg:
  "ledger_nonneg (budgets s) \<Longrightarrow> ledger_nonneg (budgets (snd (update userId i u s)))"
  by (auto simp: update_def Let_def split: prod.splits sum.splits dest: adjust_nonneg)

lemma delete_nonneg:
  "ledger_nonneg (budgets s) \<Longrightarrow> ledger_nonneg (budgets (snd (delete userId i s)))"
  by (auto simp: delete_def Let_def split: prod.splits sum.splits dest: revert_nonneg)

lemma step_nonneg: "ledger_nonneg (budgets s) \<Longrightarrow> ledger_nonneg (budgets (step cats x s))"
  by (cases x) (simp_all add: create_nonneg update_nonneg delete_nonneg)

lemma run_nonneg: "ledger_nonneg (budgets s) \<Longrightarrow> ledger_nonneg (budgets (run cats xs s))"
  by (induction xs arbitrary: s) (simp_all add: step_nonneg)

text \<open>
  C10. Every row of the budget ledger keeps \<open>spent \<ge> 0\<close>: from a ledger whose rows
  are non-negative, one \<open>updateSpent\<close> with any adjustment, and any sequence of
  create, update and delete calls, leave every row non-negative; and a negative
  adjustment that exceeds the \<open>spent\<close> of the row it addresses makes the save fail
  validation and writes nothing.
\<close>

theorem spent_never_negative:
  assumes "ledger_nonneg (budgets s)"
  shows "ledger_nonneg (snd (updateSpent userId category month year amount (budgets s)))
       \<and> ledger_nonneg (budgets (run cats ops s))
       \<and> (find (same_bucket userId (trim category) month year) (budgets s) = Some b
            \<and> b_spent b + amount < 0
          \<longrightarrow> updateSpent userId category month year amount (budgets s)
                = (Inl MongooseValidationError, budgets s))"
  using assms by (simp add: updateSpent_nonneg run_nonneg updateSpent_rejects)

theorem spent_never_negative_witness:
  "ledger_nonneg (budgets ex_ledger)
   \<and> find (same_bucket 7 (trim ''Food'') 1 2024) (budgets ex_ledger) = Some ex_row
   \<and> b_spent ex_row + (- 150) < 0
   \<and> ledger_nonneg (snd (updateSpent 7 ''Food'' 1 2024 (- 150) (budgets ex_ledger)))
   \<and> ledger_nonneg (budgets (run ex_cats [Delete 7 0, Delete 7 0] ex_ledger))
   \<and> updateSpent 7 ''Food'' 1 2024 (- 150) (budgets ex_ledger)
       = (Inl MongooseValidationError, budgets ex_ledger)"
proof -
  have h: "ledger_nonneg (budgets ex_ledger)"
    by (simp add: ledger_nonneg_def ex_ledger_def ex_row_def)
  have f: "find (same_bucket 7 (trim ''Food'') 1 2024) (budgets ex_ledger) = Some ex_row"
    by (simp add: ex_ledger_def ex_row_def same_bucket_def trim_def is_space_def)
  have n: "b_spent ex_row + (- 150) < 0"
    by (simp add: ex_row_def)
  from spent_never_negative [OF h, of 7 "''Food''" 1 2024 "- 150" ex_cats "[Delete 7 0, Delete 7 0]" ex_row]
  show ?thesis using h f n by simp
qed

section \<open>The ledger against the transactions\<close>

text \<open>
  What one successful \<open>updateSpent\<close> does to the \<open>spent\<close> of every bucket, and
  with it what the guarded block of \<open>update\<close> does when it runs: the old amount
  leaves the old bucket and the new amount enters the new one.
\<close>

lemma same_bucket_key: "same_bucket u c m y = (\<lambda>b. bucket_of b = (u, c, m, y))"
  by (auto simp: fun_eq_iff same_bucket_def bucket_of_def)

lemma find_app:
  "find P (xs @ ys) = (case find P xs of None \<Rightarrow> find P ys | Some x \<Rightarrow> Some x)"
  by (induction xs) auto

lemma store_budget_Cons:
  "store_budget b' (b # bs) = (if bucket_of b = bucket_of b' then b' # bs else b # store_budget b' bs)"
  by (simp add: same_bucket_key) (simp add: bucket_of_def)

lemma find_store_budget:
  "find (\<lambda>b. bucket_of b = k) (store_budget b' bs)
     = (if bucket_of b' = k
        then map_option (\<lambda>b. b') (find (\<lambda>b. bucket_of b = k) bs)
        else find (\<lambda>b. bucket_of b = k) bs)"
  by (induction bs) (auto simp del: store_budget.simps(2) simp add: store_budget_Cons)

lemma spent_of_key:
  "spent_of bs u c m y
     = (case find (\<lambda>b. bucket_of b = (u, c, m, y)) bs of None \<Rightarrow> 0 | Some b \<Rightarrow> b_spent b)"
  by (simp add: spent_of_def same_bucket_key)

lemma spent_of_store_budget:
  "find (\<lambda>b. bucket_of b = bucket_of b') bs = Some b
   \<Longrightarrow> spent_of (store_budget b' bs) u c m y
       = (if bucket_of b' = (u, c, m, y) then b_spent b' else spent_of bs u c m y)"
  by (auto simp: spent_of_key find_store_budget)

lemma updateSpent_spent_of:
  assumes ok: "updateSpent userId category month year amount bs = (Inr b', bs')"
  shows "spent_of bs' u c m y
       = spent_of bs u c m y
         + (if (u, c, m, y) = (userId, trim category, month, year) then amount else 0)"
proof (cases "find (\<lambda>b. bucket_of b = (userId, trim category, month, year)) bs")
  case None
  let ?new = "\<lparr> b_userId = userId, b_category = trim category, b_month = month, b_year = year,
                b_amount = 0, b_spent = 0, b_isActive = True \<rparr>"
  from ok None have b': "b' = ?new\<lparr> b_spent := amount \<rparr>" and bs': "bs' = store_budget b' (bs @ [?new])"
    by (auto simp: updateSpent_def getOrCreate_def save_budget_def same_bucket_key Let_def split: if_splits)
  have k: "bucket_of b' = (userId, trim category, month, year)"
    by (simp add: b' bucket_of_def)
  have kn: "bucket_of ?new = (userId, trim category, month, year)"
    by (simp add: bucket_of_def)
  have f: "find (\<lambda>b. bucket_of b = bucket_of b') (bs @ [?new]) = Some ?new"
    unfolding k using None kn by (simp add: find_app)
  have n: "spent_of bs userId (trim category) month year = 0"
    using None by (simp add: spent_of_key)
  have o: "(u, c, m, y) \<noteq> (userId, trim category, month, year)
        \<Longrightarrow> spent_of (bs @ [?new]) u c m y = spent_of bs u c m y"
    using kn by (auto simp: spent_of_key find_app split: option.splits)
  show ?thesis
  proof (cases "(u, c, m, y) = (userId, trim category, month, year)")
    case True
    then show ?thesis
      unfolding bs' spent_of_store_budget [OF f] using k n by (simp add: b')
  next
    case False
    then show ?thesis
      unfolding bs' spent_of_store_budget [OF f] using k o by auto
  qed
next
  case (Some b)
  from ok Some have b': "b' = b\<lparr> b_spent := b_spent b + amount \<rparr>" and bs': "bs' = store_budget b' bs"
    by (auto simp: updateSpent_def getOrCreate_def save_budget_def same_bucket_key split: if_splits)
  from Some have kb: "bucket_of b = (userId, trim category, month, year)"
    by (auto simp: find_Some_iff)
  then have k: "bucket_of b' = (userId, trim category, month, year)"
    by (simp add: b' bucket_of_def)
  have f: "find (\<lambda>b. bucket_of b = bucket_of b') bs = Some b"
    unfolding k using Some by simp
  have n: "spent_of bs userId (trim category) month year = b_spent b"
    using Some by (simp add: spent_of_key)
  show ?thesis
  proof (cases "(u, c, m, y) = (userId, trim category, month, year)")
    case True
    then show ?thesis
      unfolding bs' spent_of_store_budget [OF f] using k n by (simp add: b')
  next
    case False
    then show ?thesis
      unfolding bs' spent_of_store_budget [OF f] using k by auto
  qed
qed

lemma revert_spent_of:
  assumes "revert userId t bs = (Inr (), bs')" and "t_type t = expense"
  shows "spent_of bs' v c m y
       = spent_of bs v c m y
         - (if (v, c, m, y) = (userId, trim (t_category t), getMonth (t_date t) + 1,
                               getFullYear (t_date t))
            then t_amount t else 0)"
proof -
  from assms(1,2) obtain b where "updateSpent userId (t_category t) (getMonth (t_date t) + 1)
      (getFullYear (t_date t)) (- t_amount t) bs = (Inr b, bs')"
    by (auto simp: revert_def split: prod.splits sum.splits)
  from updateSpent_spent_of [OF this, of v c m y] show ?thesis by simp
qed

lemma reapply_spent_of:
  assumes "reapply userId u t bs = (Inr (), bs')" and "t_type t = expense"
  shows "spent_of bs' v c m y
       = spent_of bs v c m y
         + (if (v, c, m, y) = (userId, trim (newCategory u t), getMonth (newDate u t) + 1,
                               getFullYear (newDate u t))
            then newAmount u t else 0)"
proof -
  from assms(1,2) obtain b where "updateSpent userId (newCategory u t) (getMonth (newDate u t) + 1)
      (getFullYear (newDate u t)) (newAmount u t) bs = (Inr b, bs')"
    by (auto simp: reapply_def split: prod.splits sum.splits)
  from updateSpent_spent_of [OF this, of v c m y] show ?thesis by simp
qed

lemma guarded_update_relocates:
  assumes ok: "adjust userId u t bs = (Inr (), bs')"
    and guard: "truthy_str (u_category u) \<or> truthy_num (u_amount u)"
    and ex: "t_type t = expense"
  shows "spent_of bs' v c m y
       = spent_of bs v c m y
         - (if (v, c, m, y) = (userId, trim (t_category t), getMonth (t_date t) + 1,
                               getFullYear (t_date t))
            then t_amount t else 0)
         + (if (v, c, m, y) = (userId, trim (newCategory u t), getMonth (newDate u t) + 1,
                               getFullYear (newDate u t))
            then newAmount u t else 0)"
proof -
  from ok guard obtain bs1 where r: "revert userId t bs = (Inr (), bs1)"
    and a: "reapply userId u t bs1 = (Inr (), bs')"
    by (auto simp: adjust_def split: prod.splits sum.splits)
  show ?thesis
    unfolding reapply_spent_of [OF a ex] revert_spent_of [OF r ex] by simp
qed

lemma dropWhile_rev_dropWhile:
  "dropWhile P (rev (dropWhile P (rev (dropWhile P s)))) = rev (dropWhile P (rev (dropWhile P s)))"
proof -
  let ?xs = "dropWhile P s"
  let ?ys = "dropWhile P (rev ?xs)"
  show ?thesis
  proof (cases "?ys = []")
    case True
    show ?thesis unfolding True by simp
  next
    case False
    have "rev ?xs = takeWhile P (rev ?xs) @ ?ys" by simp
    then have "?xs = rev ?ys @ rev (takeWhile P (rev ?xs))"
      by (metis rev_append rev_rev_ident)
    then have h: "hd ?xs = hd (rev ?ys)" using False
      by (metis hd_append2 rev_is_Nil_conv)
    have "?xs \<noteq> []"
    proof
      assume e: "?xs = []"
      have "?ys = []" unfolding e by simp
      with False show False by (rule notE)
    qed
    then have "\<not> P (hd ?xs)" by (rule hd_dropWhile)
    with h have "\<not> P (hd (rev ?ys))" by simp
    then show ?thesis by (simp add: dropWhile_eq_self_iff)
  qed
qed

lemma trim_trim: "trim (trim s) = trim s"
proof -
  have "trim (trim s) = rev (dropWhile is_space (rev (rev (dropWhile is_space (rev (dropWhile is_space s))))))"
    unfolding trim_def by (simp only: dropWhile_rev_dropWhile)
  then show ?thesis by (simp add: trim_def)
qed

lemma expense_total_append:
  "expense_total (ts @ [t]) v c m y = expense_total ts v c m y + contribution t v c m y"
  by (simp add: expense_total_def contribution_def)

lemma expense_total_remove:
  "find (\<lambda>t. t_id t = i) ts = Some t
   \<Longrightarrow> expense_total (remove_by_id i ts) v c m y = expense_total ts v c m y - contribution t v c m y"
  by (induction ts) (auto simp: expense_total_def contribution_def split: if_splits)

lemma expense_total_set:
  "find (\<lambda>t. t_id t = i) ts = Some t
   \<Longrightarrow> expense_total (set_by_id i u ts) v c m y
       = expense_total ts v c m y - contribution t v c m y + contribution (apply_set u t) v c m y"
  by (induction ts) (auto simp: expense_total_def contribution_def split: if_splits)

lemma getById_found:
  "getById userId i ts = Inr t \<Longrightarrow> find (\<lambda>t. t_id t = i) ts = Some t \<and> t_userId t = userId \<and> t \<in> set ts"
  by (auto simp: getById_def findById_def find_Some_iff split: option.splits if_splits sum.splits)

lemma categorise_keeps: "t_type (categorise ml d x) = t_type x \<and> t_userId (categorise ml d x) = t_userId x"
  by (cases ml) (auto simp: categorise_def)

lemma prepare_fields: "t_type (prepare now userId d) = d_type d \<and> t_userId (prepare now userId d) = userId"
  by (simp add: prepare_def)

lemma repo_create_Inr:
  assumes "repo_create t0 now s = (Inr t, s1)"
  shows "s1 = s\<lparr> transactions := transactions s @ [t], nextId := Suc (nextId s) \<rparr>
       \<and> t_type t = t_type t0 \<and> t_userId t = t_userId t0
       \<and> trim (t_category t) = t_category t \<and> t_category t \<noteq> []"
  using assms by (auto simp: repo_create_def Let_def transaction_valid_def trim_trim split: if_splits)

lemma create_Inr:
  assumes "create cats ml now userId d s = (Inr t, s')"
  obtains s1 bs' where "repo_create (categorise ml d (prepare now userId d)) now s = (Inr t, s1)"
    and "charge userId (d_type d) t (budgets s1) = (Inr (), bs')"
    and "s' = s1\<lparr> budgets := bs' \<rparr>"
  using assms by (auto simp: create_def split: option.splits prod.splits sum.splits if_splits)

lemma in_bucket_key:
  "in_bucket v c m y t
     = (t_type t = expense \<and> (v, c, m, y) = (t_userId t, t_category t, getMonth (t_date t) + 1,
                                             getFullYear (t_date t)))"
  by (auto simp: in_bucket_def)

lemma charge_spent_of:
  assumes "charge userId ty t bs = (Inr (), bs')" and "t_type t = ty" and "t_userId t = userId"
    and "trim (t_category t) = t_category t" and "t_category t \<noteq> []"
  shows "spent_of bs' v c m y = spent_of bs v c m y + contribution t v c m y"
proof (cases "ty = expense")
  case True
  with assms(1,5) obtain b where "updateSpent userId (t_category t) (getMonth (t_date t) + 1)
      (getFullYear (t_date t)) (t_amount t) bs = (Inr b, bs')"
    by (auto simp: charge_def split: prod.splits sum.splits)
  from updateSpent_spent_of [OF this, of v c m y] show ?thesis
    using True assms(2,3,4) by (simp add: contribution_def in_bucket_key)
next
  case False
  with assms(1) have "bs' = bs" by (simp add: charge_def)
  then show ?thesis using False assms(2) by (simp add: contribution_def in_bucket_key)
qed

lemma create_consistent:
  assumes inv: "ledger_consistent s" and ok: "create cats ml now userId d s = (Inr t, s')"
  shows "ledger_consistent s'"
proof -
  from ok obtain s1 bs' where rc: "repo_create (categorise ml d (prepare now userId d)) now s = (Inr t, s1)"
    and ch: "charge userId (d_type d) t (budgets s1) = (Inr (), bs')"
    and s': "s' = s1\<lparr> budgets := bs' \<rparr>"
    by (rule create_Inr)
  note f = repo_create_Inr [OF rc]
  from f have s1: "s1 = s\<lparr> transactions := transactions s @ [t], nextId := Suc (nextId s) \<rparr>" by simp
  have ty: "t_type t = d_type d" and us: "t_userId t = userId"
    using f by (simp_all add: categorise_keeps prepare_fields)
  have tr: "trim (t_category t) = t_category t" and ne: "t_category t \<noteq> []"
    using f by simp_all
  have b: "budgets s1 = budgets s" by (simp add: s1)
  have sp: "\<And>v c m y. spent_of bs' v c m y = spent_of (budgets s) v c m y + contribution t v c m y"
    using charge_spent_of [OF ch [unfolded b] ty us tr ne] by simp
  show ?thesis
    using inv tr by (simp add: ledger_consistent_def s' s1 sp expense_total_append)
qed

lemma revert_contribution:
  assumes "revert userId t bs = (Inr (), bs')" and "t_userId t = userId"
    and "trim (t_category t) = t_category t"
  shows "spent_of bs' v c m y = spent_of bs v c m y - contribution t v c m y"
proof (cases "t_type t = expense")
  case True
  from revert_spent_of [OF assms(1) True, of v c m y] show ?thesis
    using True assms(2,3) by (simp add: contribution_def in_bucket_key)
next
  case False
  with assms(1) have "bs' = bs" by (simp add: revert_def)
  then show ?thesis using False by (simp add: contribution_def in_bucket_key)
qed

lemma set_remove_by_id: "t' \<in> set (remove_by_id i ts) \<Longrightarrow> t' \<in> set ts"
  by (induction ts) (auto split: if_splits)

lemma delete_consistent:
  assumes inv: "ledger_consistent s" and ok: "delete userId i s = (Inr t, s')"
  shows "ledger_consistent s'"
proof -
  from ok obtain x bs' where g: "getById userId i (transactions s) = Inr x"
    and r: "revert userId x (budgets s) = (Inr (), bs')"
    and d: "repo_delete i (transactions s) = (Inr t, transactions s')"
    and b: "budgets s' = bs'"
    by (auto simp: delete_def Let_def split: sum.splits prod.splits)
       (metis prod.collapse)+
  note f = getById_found [OF g]
  from d f have ts: "transactions s' = remove_by_id i (transactions s)"
    by (simp add: repo_delete_def)
  have tr: "trim (t_category x) = t_category x"
    using inv f by (simp add: ledger_consistent_def)
  have sp: "\<And>v c m y. spent_of bs' v c m y = spent_of (budgets s) v c m y - contribution x v c m y"
    using revert_contribution [OF r _ tr] f by simp
  have et: "\<And>v c m y. expense_total (transactions s') v c m y
      = expense_total (transactions s) v c m y - contribution x v c m y"
    unfolding ts using f by (simp add: expense_total_remove)
  have tr': "\<forall>t \<in> set (transactions s'). trim (t_category t) = t_category t"
    using inv by (auto simp: ledger_consistent_def ts dest: set_remove_by_id)
  show ?thesis
    using inv tr' by (simp add: ledger_consistent_def b sp et)
qed

lemma apply_set_plain:
  assumes "plain_update u" and "trim (t_category t) = t_category t"
  shows "t_type (apply_set u t) = t_type t \<and> t_userId (apply_set u t) = t_userId t
       \<and> t_amount (apply_set u t) = newAmount u t
       \<and> t_category (apply_set u t) = trim (newCategory u t)
       \<and> t_date (apply_set u t) = newDate u t"
  using assms
  by (auto simp: plain_update_def apply_set_def newAmount_def newCategory_def newDate_def
           split: option.splits)

lemma adjust_contribution:
  assumes ok: "adjust userId u t bs = (Inr (), bs')" and pl: "plain_update u"
    and us: "t_userId t = userId" and tr: "trim (t_category t) = t_category t"
  shows "spent_of bs' v c m y
       = spent_of bs v c m y - contribution t v c m y + contribution (apply_set u t) v c m y"
proof (cases "t_type t = expense")
  case True
  from pl have guard: "truthy_str (u_category u) \<or> truthy_num (u_amount u)"
    by (simp add: plain_update_def)
  from guarded_update_relocates [OF ok guard True, of v c m y] show ?thesis
    using True us tr apply_set_plain [OF pl tr]
    by (simp add: contribution_def in_bucket_key)
next
  case False
  with ok have "bs' = bs"
    by (auto simp: adjust_def revert_def reapply_def split: if_splits)
  then show ?thesis
    using False apply_set_plain [OF pl tr] by (simp add: contribution_def in_bucket_key)
qed

lemma set_set_by_id:
  "t' \<in> set (set_by_id i u ts) \<Longrightarrow> t' \<in> set ts \<or> (\<exists>t \<in> set ts. t' = apply_set u t)"
  by (induction ts) (auto split: if_splits)

lemma apply_set_trimmed:
  "trim (t_category t) = t_category t \<Longrightarrow> trim (t_category (apply_set u t)) = t_category (apply_set u t)"
  by (auto simp: apply_set_def trim_trim split: option.splits)

lemma update_consistent:
  assumes inv: "ledger_consistent s" and pl: "plain_update u"
    and ok: "update userId i u s = (Inr t, s')"
  shows "ledger_consistent s'"
proof -
  from ok obtain x bs' where g: "getById userId i (transactions s) = Inr x"
    and a: "adjust userId u x (budgets s) = (Inr (), bs')"
    and d: "repo_update i u (transactions s) = (Inr t, transactions s')"
    and b: "budgets s' = bs'"
    by (auto simp: update_def Let_def split: sum.splits prod.splits)
       (metis prod.collapse)+
  note f = getById_found [OF g]
  from d f have ts: "transactions s' = set_by_id i u (transactions s)"
    by (auto simp: repo_update_def split: if_splits)
  have tr: "trim (t_category x) = t_category x"
    using inv f by (simp add: ledger_consistent_def)
  have sp: "\<And>v c m y. spent_of bs' v c m y
      = spent_of (budgets s) v c m y - contribution x v c m y + contribution (apply_set u x) v c m y"
    using adjust_contribution [OF a pl _ tr] f by simp
  have et: "\<And>v c m y. expense_total (transactions s') v c m y
      = expense_total (transactions s) v c m y - contribution x v c m y
        + contribution (apply_set u x) v c m y"
    unfolding ts using f by (simp add: expense_total_set)
  have tr': "\<forall>t \<in> set (transactions s'). trim (t_category t) = t_category t"
    using inv by (auto simp: ledger_consistent_def ts apply_set_trimmed dest!: set_set_by_id)
  show ?thesis
    using inv tr' by (simp add: ledger_consistent_def b sp et)
qed

lemma empty_ledger_consistent: "ledger_consistent empty_ledger"
  by (simp add: ledger_consistent_def empty_ledger_def spent_of_def expense_total_def)

text \<open>
  The invariant is kept by every \<open>create\<close> and \<open>delete\<close> that returns, and by every
  \<open>update\<close> that returns and whose body passes the guard, changes no type and
  carries neither the amount 0 nor an empty category.
\<close>

lemma ledger_invariant_kept:
  assumes "ledger_consistent s"
    and "create cats ml now userId d s = (Inr t, s')
         \<or> delete userId i s = (Inr t, s')
         \<or> (plain_update u \<and> update userId i u s = (Inr t, s'))"
  shows "ledger_consistent s'"
  using assms create_consistent delete_consistent update_consistent by blast

lemma adjust_unguarded:
  "\<not> truthy_str (u_category u) \<Longrightarrow> \<not> truthy_num (u_amount u)
   \<Longrightarrow> adjust userId u existing bs = (Inr (), bs)"
  by (simp add: adjust_def)

lemma update_unguarded_keeps_budgets:
  "\<not> truthy_str (u_category u) \<Longrightarrow> \<not> truthy_num (u_amount u)
   \<Longrightarrow> budgets (snd (update userId i u s)) = budgets s"
  by (simp add: update_def adjust_unguarded Let_def split: sum.splits)

text \<open>
  C1. The ledger invariant says that after every sequence of create, update and delete
  calls the \<open>spent\<close> of a bucket is the sum of the amounts of the expense
  transactions that exist in it. The code keeps it after the create of the Food
  expense (100 on both sides), and loses it on two updates that the guard
  \<open>updateData.category || updateData.amount\<close> lets through without touching the
  ledger: the update that carries only a new date (January keeps \<open>spent = 100\<close>
  with no transaction left, February has the transaction and no \<open>spent\<close>), and the
  update that sets the amount to 0 (\<open>spent\<close> stays 100, the amounts sum to 0).
\<close>

theorem ledger_invariant_lost_on_update:
  "run ex_cats [Create 7 ex_expense Rejected ex_jan15] empty_ledger = ex_ledger
   \<and> spent_of (budgets ex_ledger) 7 ''Food'' 1 2024 = 100
   \<and> expense_total (transactions ex_ledger) 7 ''Food'' 1 2024 = 100
   \<and> spent_of (budgets ex_moved) 7 ''Food'' 1 2024 = 100
   \<and> expense_total (transactions ex_moved) 7 ''Food'' 1 2024 = 0
   \<and> spent_of (budgets ex_moved) 7 ''Food'' 2 2024 = 0
   \<and> expense_total (transactions ex_moved) 7 ''Food'' 2 2024 = 100
   \<and> spent_of (budgets ex_zeroed) 7 ''Food'' 1 2024 = 100
   \<and> expense_total (transactions ex_zeroed) 7 ''Food'' 1 2024 = 0"
  by code_simp

text \<open>
  C2. An update that changes only the date of an existing expense, from January to
  February, should take the old amount off the January row and add it to the February
  row. The code stores the new date and leaves the ledger as it was: the January row
  keeps \<open>spent = 100\<close> and no February row appears.
\<close>

theorem date_only_update_relocates_nothing:
  "update 7 0 ex_date_only ex_ledger
     = (Inr (ex_txn\<lparr> t_date := ex_feb10 \<rparr>),
        ex_ledger\<lparr> transactions := [ex_txn\<lparr> t_date := ex_feb10 \<rparr>] \<rparr>)
   \<and> budgets (snd (update 7 0 ex_date_only ex_ledger)) = [ex_row]
   \<and> spent_of (budgets (snd (update 7 0 ex_date_only ex_ledger))) 7 ''Food'' 1 2024 = 100
   \<and> spent_of (budgets (snd (update 7 0 ex_date_only ex_ledger))) 7 ''Food'' 2 2024 = 0"
  by code_simp

section \<open>Creation when the category predictor fails\<close>

lemma categorise_rejected:
  "\<not> truthy_str (d_category d)
   \<Longrightarrow> categorise Rejected d (prepare now userId d)
       = (prepare now userId d)\<lparr> t_category := ''Other Expense'', t_categorySource := src_auto \<rparr>"
  by (cases "d_category d") (auto simp: categorise_def prepare_def)

text \<open>
  C3. A create call without a category, whose predictor call fails, should store the
  default category of the direction: \<open>Other Income\<close> for an income. The code stores
  the income with the category \<open>Other Expense\<close> (source \<open>auto\<close>): \<open>predictCategory\<close>
  swallows the failure and returns \<open>null\<close>, so the \<open>catch\<close> block of \<open>create\<close>
  that picks the default by direction is never entered.
\<close>

theorem income_default_category_is_expense:
  "create ex_cats Rejected ex_jan15 7 ex_income empty_ledger
     = (Inr ex_income_stored, \<lparr> transactions = [ex_income_stored], budgets = [], nextId = 1 \<rparr>)
   \<and> t_type ex_income_stored = income
   \<and> t_category ex_income_stored = ''Other Expense''
   \<and> t_categorySource ex_income_stored = src_auto"
  by code_simp

section \<open>The history gate of the forecast pipeline\<close>

lemma generateAndStore_gate:
  "fst (generateAndStore ml now txns userId forecastType fs) = Inl (PlainError insufficient_history)
   \<longleftrightarrow> length (getByDateRange txns userId (days_before 90 now) now) < 30"
  by (auto simp: generateAndStore_def Let_def split: sum.splits)
     (case_tac "ml (forecast_history (getByDateRange txns userId (days_before 90 now) now))"; simp)+

text \<open>
  C4. Forecast generation should fail with the insufficient-history error exactly when
  the trailing 90 days hold fewer than 30 days of transaction history. The code counts
  transactions, not days: with 30 transactions that all fall on 15 January, one day of
  history, it calls the predictor and stores a forecast; with 29 of them it fails.
\<close>

theorem one_day_of_history_passes_the_gate:
  "days_of_history (getByDateRange (ex_same_day 30) 7 (days_before 90 ex_feb10) ex_feb10) = 1
   \<and> generateAndStore (\<lambda>h. Resolved ex_forecastData) ex_feb10 (ex_same_day 30) 7 day30 []
       = (Inr ex_forecast, [ex_forecast])
   \<and> generateAndStore (\<lambda>h. Resolved ex_forecastData) ex_feb10 (ex_same_day 29) 7 day30 []
       = (Inl (PlainError insufficient_history), [])"
  by code_simp

section \<open>Goal progress: the recomputed value\<close>

lemma foldl_amounts: "foldl (\<lambda>sum t. sum + t_amount t) a xs = a + sum_list (map t_amount xs)"
  by (induction xs arbitrary: a) (simp_all add: add.assoc)

lemma sum_list_mset_eq:
  fixes f :: "'a \<Rightarrow> rat"
  assumes "mset xs = mset ys" shows "sum_list (map f xs) = sum_list (map f ys)"
proof -
  have "sum_mset (image_mset f (mset xs)) = sum_mset (image_mset f (mset ys))"
    using assms by simp
  then show ?thesis
    by (simp only: mset_map [symmetric] sum_mset_sum_list)
qed

lemma sum_of_type_window:
  "sum_of_type y (getByDateRange txns userId (g_startDate g) (g_endDate g)) = window_total y userId g txns"
proof -
  have "mset (filter (\<lambda>t. t_type t = y) (getByDateRange txns userId (g_startDate g) (g_endDate g)))
      = mset (filter (\<lambda>t. in_window userId g t \<and> t_type t = y) txns)"
    by (simp add: getByDateRange_def in_window_def filter_filter_mset conj_commute conj_left_commute)
  then have "sum_list (map t_amount (filter (\<lambda>t. t_type t = y) (getByDateRange txns userId (g_startDate g) (g_endDate g))))
      = sum_list (map t_amount (filter (\<lambda>t. in_window userId g t \<and> t_type t = y) txns))"
    by (rule sum_list_mset_eq)
  then show ?thesis
    by (simp add: sum_of_type_def window_total_def foldl_amounts)
qed

lemma window_total_nonneg:
  "\<forall>t \<in> set txns. 0 \<le> t_amount t \<Longrightarrow> 0 \<le> window_total y userId g txns"
  by (auto simp: window_total_def intro!: sum_list_nonneg)

lemma computed_value_eq:
  "computed_value userId g txns =
     (if g_type g = spending_cap \<or> g_type g = category_limit then window_total expense userId g txns
      else if g_type g = savings_target
           then window_total income userId g txns - window_total expense userId g txns
      else 0)"
  by (simp add: computed_value_def sum_of_type_window)

lemma save_progress_fields:
  "save_progress g cv p gs = (Inr g', gs') \<Longrightarrow>
     g_currentValue g' = cv \<and> p = Finite (g_progress g') \<and> 0 \<le> g_progress g' \<and> g_progress g' \<le> 100
     \<and> g_type g' = g_type g \<and> g_startDate g' = g_startDate g \<and> g_endDate g' = g_endDate g
     \<and> g_targetValue g' = g_targetValue g \<and> g_id g' = g_id g \<and> g_userId g' = g_userId g
     \<and> gs' = store_goal g' gs"
  by (cases p) (auto simp: save_progress_def assign_progress_def split: if_splits)

lemma window_total_cong:
  "g_startDate g' = g_startDate g \<Longrightarrow> g_endDate g' = g_endDate g
   \<Longrightarrow> window_total y userId g' txns = window_total y userId g txns"
  by (simp add: window_total_def in_window_def)

lemma updateProgress_saved:
  assumes "updateProgress txns userId goalId gs = (Inr g', gs')"
  obtains g where "goal_getById userId goalId gs = Inr g"
    and "save_progress g (max (computed_value userId g txns) 0)
           (progress_of (max (computed_value userId g txns) 0) (g_targetValue g)) gs = (Inr g', gs')"
  using assms by (auto simp: updateProgress_def Let_def split: sum.splits)

lemma updateProgress_custom:
  assumes ok: "updateProgress txns userId goalId gs = (Inr g', gs')" and c: "g_type g' = custom"
  shows "g_currentValue g' = 0"
proof -
  from ok obtain g where sp: "save_progress g (max (computed_value userId g txns) 0)
               (progress_of (max (computed_value userId g txns) 0) (g_targetValue g)) gs = (Inr g', gs')"
    by (rule updateProgress_saved)
  from save_progress_fields [OF sp] c show ?thesis
    by (simp add: computed_value_def)
qed


text \<open>
  C5, as the claim states it: for \<open>category_limit\<close> the value is the sum of the
  expenses of the goal's category, and for \<open>custom\<close> the value is left alone. On the
  code a goal has no category and \<open>category_limit\<close> sums the expenses of every
  category: over one Food expense of 100 and one Rent expense of 900 the value is
  1000, the sum of neither category. A custom goal whose value was 40 is stored back
  with the value 0.
\<close>

theorem category_limit_sums_every_category:
  "updateProgress [ex_txn, ex_rent] 7 3 [ex_goal] = (Inr ex_goal_after, [ex_goal_after])
   \<and> g_type ex_goal_after = category_limit
   \<and> g_currentValue ex_goal_after = 1000
   \<and> category_expenses ''Food'' [ex_txn, ex_rent] = 100
   \<and> category_expenses ''Rent'' [ex_txn, ex_rent] = 900
   \<and> updateProgress [ex_txn, ex_rent] 7 3 [ex_custom] = (Inr ex_custom_after, [ex_custom_after])
   \<and> g_currentValue ex_custom = 40
   \<and> g_currentValue ex_custom_after = 0"
  by code_simp

text \<open>
  C5, amended. When \<open>updateProgress\<close> succeeds on a ledger of non-negative amounts,
  the stored \<open>currentValue\<close> of a goal that is not custom is computed from the owner's
  transactions dated within the goal's start and end date: for \<open>savings_target\<close> the
  income total minus the expense total, floored at 0; for \<open>spending_cap\<close> and for
  \<open>category_limit\<close> alike the total of all expenses, of every category.
\<close>

theorem updateProgress_currentValue:
  assumes ok: "updateProgress txns userId goalId gs = (Inr g', gs')"
    and nonneg: "\<forall>t \<in> set txns. 0 \<le> t_amount t"
  shows "g_type g' \<noteq> custom \<longrightarrow>
          g_currentValue g' =
            (if g_type g' = savings_target
             then max (window_total income userId g' txns - window_total expense userId g' txns) 0
             else window_total expense userId g' txns)"
proof -
  from ok obtain g where g: "goal_getById userId goalId gs = Inr g"
    and sp: "save_progress g (max (computed_value userId g txns) 0)
               (progress_of (max (computed_value userId g txns) 0) (g_targetValue g)) gs = (Inr g', gs')"
    by (rule updateProgress_saved)
  from save_progress_fields [OF sp]
  have cv: "g_currentValue g' = max (computed_value userId g txns) 0"
    and ty: "g_type g' = g_type g"
    and sd: "g_startDate g' = g_startDate g" and ed: "g_endDate g' = g_endDate g"
    by simp_all
  have w: "\<And>y. window_total y userId g' txns = window_total y userId g txns"
    using sd ed by (rule window_total_cong)
  have e: "0 \<le> window_total expense userId g txns"
    using nonneg by (rule window_total_nonneg)
  show ?thesis
  proof (cases "g_type g")
    case spending_cap
    then show ?thesis using e by (simp add: cv ty w computed_value_eq)
  next
    case savings_target
    then show ?thesis by (simp add: cv ty w computed_value_eq)
  next
    case category_limit
    then show ?thesis using e by (simp add: cv ty w computed_value_eq)
  next
    case custom
    then show ?thesis by (simp add: ty)
  qed
qed


theorem updateProgress_currentValue_witness:
  "updateProgress [ex_txn, ex_rent] 7 3 [ex_goal] = (Inr ex_goal_after, [ex_goal_after])
   \<and> 0 \<le> t_amount ex_txn \<and> 0 \<le> t_amount ex_rent \<and> 0 \<le> t_amount ex_income_stored
   \<and> g_type ex_goal_after = category_limit
   \<and> g_currentValue ex_goal_after = window_total expense 7 ex_goal_after [ex_txn, ex_rent]
   \<and> updateProgress [ex_txn, ex_rent, ex_income_stored] 7 3 [ex_savings]
       = (Inr ex_savings_after, [ex_savings_after])
   \<and> g_type ex_savings_after = savings_target
   \<and> g_currentValue ex_savings_after
       = max (window_total income 7 ex_savings_after [ex_txn, ex_rent, ex_income_stored]
              - window_total expense 7 ex_savings_after [ex_txn, ex_rent, ex_income_stored]) 0"
proof -
  have e1: "updateProgress [ex_txn, ex_rent] 7 3 [ex_goal] = (Inr ex_goal_after, [ex_goal_after])"
    by code_simp
  have a: "0 \<le> t_amount ex_txn" "0 \<le> t_amount ex_rent" "0 \<le> t_amount ex_income_stored"
    by (simp_all add: ex_txn_def ex_rent_def ex_income_stored_def)
  have n1: "\<forall>t \<in> set [ex_txn, ex_rent]. 0 \<le> t_amount t"
    using a by simp
  have c1: "g_type ex_goal_after = category_limit"
    by (simp add: ex_goal_after_def ex_goal_def)
  have e2: "updateProgress [ex_txn, ex_rent, ex_income_stored] 7 3 [ex_savings]
              = (Inr ex_savings_after, [ex_savings_after])"
    by code_simp
  have n2: "\<forall>t \<in> set [ex_txn, ex_rent, ex_income_stored]. 0 \<le> t_amount t"
    using a by simp
  have c2: "g_type ex_savings_after = savings_target"
    by (simp add: ex_savings_after_def ex_savings_def ex_goal_def)
  from updateProgress_currentValue [OF e1 n1] updateProgress_currentValue [OF e2 n2]
  show ?thesis using e1 a c1 e2 c2 by simp
qed

section \<open>Goal progress: the percentage\<close>

lemma progress_of_positive_target:
  "0 \<le> cv \<Longrightarrow> 0 < tv \<Longrightarrow>
     progress_of cv tv = Finite (min (cv / tv * 100) 100)
     \<and> 0 \<le> min (cv / tv * 100) 100 \<and> min (cv / tv * 100) 100 \<le> 100"
  by (simp add: progress_of_def js_div_def)

lemma progress_of_zero_target:
  "progress_of cv 0 = (if 0 < cv then Finite 100 else if cv < 0 then NegInfinity else NaN)"
  by (simp add: progress_of_def js_div_def)


lemma updateProgress_progress:
  assumes "updateProgress txns userId goalId gs = (Inr g', gs')"
  shows "progress_of (g_currentValue g') (g_targetValue g') = Finite (g_progress g')
       \<and> 0 \<le> g_progress g' \<and> g_progress g' \<le> 100"
proof -
  from assms obtain g where sp: "save_progress g (max (computed_value userId g txns) 0)
               (progress_of (max (computed_value userId g txns) 0) (g_targetValue g)) gs = (Inr g', gs')"
    by (rule updateProgress_saved)
  from save_progress_fields [OF sp] show ?thesis by simp
qed

text \<open>
  C6. After \<open>updateProgress\<close> the progress should be
  \<open>min(currentValue / targetValue * 100, 100)\<close> within 0 and 100 for every non-negative
  current and target value. For a goal whose target is 0 (the schema admits it) and
  whose window holds no expense, the quotient is \<open>0 / 0\<close>: the progress is NaN, the
  save fails validation, and the stored goal keeps its old values. The schema method
  \<open>updateProgress(0)\<close> of that goal does the same.
\<close>

theorem zero_target_progress_is_nan:
  "g_targetValue ex_zero_goal = 0
   \<and> computed_value 7 ex_zero_goal [] = 0
   \<and> progress_of 0 0 = NaN
   \<and> updateProgress [] 7 3 [ex_zero_goal] = (Inl MongooseValidationError, [ex_zero_goal])
   \<and> goal_updateProgress 0 ex_zero_goal [ex_zero_goal] = (Inl MongooseValidationError, [ex_zero_goal])"
  by code_simp

section \<open>Goal progress: idempotence\<close>

lemma goal_getById_fields:
  "goal_getById userId goalId gs = Inr g \<Longrightarrow> g_id g = goalId \<and> g_userId g = userId"
  by (auto simp: goal_getById_def find_Some_iff split: option.splits if_splits)

lemma find_store_goal:
  "find (\<lambda>x. g_id x = i) gs = Some g \<Longrightarrow> g_id g' = i
   \<Longrightarrow> find (\<lambda>x. g_id x = i) (store_goal g' gs) = Some g'"
  by (induction gs) (auto split: if_splits)

lemma goal_getById_store:
  assumes "goal_getById userId goalId gs = Inr g" and "g_id g' = g_id g" and "g_userId g' = g_userId g"
  shows "goal_getById userId goalId (store_goal g' gs) = Inr g'"
proof -
  from goal_getById_fields [OF assms(1)] have ids: "g_id g = goalId" "g_userId g = userId"
    by simp_all
  from assms(1) have "find (\<lambda>x. g_id x = goalId) gs = Some g"
    by (auto simp: goal_getById_def split: option.splits if_splits)
  then have "find (\<lambda>x. g_id x = goalId) (store_goal g' gs) = Some g'"
    using assms(2) ids(1) by (simp add: find_store_goal)
  then show ?thesis
    using assms(3) ids(2) by (simp add: goal_getById_def)
qed

lemma store_goal_twice: "store_goal g (store_goal g gs) = store_goal g gs"
  by (induction gs) auto

lemma assign_progress_twice:
  "assign_progress (assign_progress g cv q) cv q = assign_progress g cv q"
  by (simp add: assign_progress_def)

lemma computed_value_cong:
  "g_type g' = g_type g \<Longrightarrow> g_startDate g' = g_startDate g \<Longrightarrow> g_endDate g' = g_endDate g
   \<Longrightarrow> computed_value userId g' txns = computed_value userId g txns"
  by (simp add: computed_value_def)

lemma save_progress_again:
  assumes "save_progress g cv p gs = (Inr g', gs')"
  shows "save_progress g' cv p gs' = (Inr g', gs')"
proof -
  from assms obtain q where p: "p = Finite q" and v: "0 \<le> cv \<and> 0 \<le> q \<and> q \<le> 100"
    by (cases p) (auto simp: save_progress_def split: if_splits)
  from assms p v have g': "g' = assign_progress g cv q" and gs': "gs' = store_goal g' gs"
    by (auto simp: save_progress_def)
  show ?thesis
    using v by (simp add: save_progress_def p g' gs' assign_progress_twice store_goal_twice)
qed

lemma save_progress_fails:
  "save_progress g cv p gs = (Inl e, gs') \<Longrightarrow> gs' = gs"
  by (cases p) (auto simp: save_progress_def split: if_splits)

lemma updateProgress_fails:
  "updateProgress txns userId goalId gs = (Inl e, gs') \<Longrightarrow> gs' = gs"
  by (auto simp: updateProgress_def Let_def split: sum.splits dest: save_progress_fails)


text \<open>
  C7. \<open>updateProgress\<close> is idempotent: called again on the goals the first call
  left, over the same transactions, it returns what the first call returned, the
  same goal with the same \<open>currentValue\<close> and \<open>progress\<close> or the same error, and
  leaves the stored goals as the first call left them.
\<close>

theorem updateProgress_idempotent:
  "updateProgress txns userId goalId (snd (updateProgress txns userId goalId gs))
     = updateProgress txns userId goalId gs"
proof (cases "updateProgress txns userId goalId gs")
  case (Pair r gs1)
  show ?thesis
  proof (cases r)
    case (Inl e)
    with Pair have "updateProgress txns userId goalId gs = (Inl e, gs1)" by simp
    then have "gs1 = gs" by (rule updateProgress_fails)
    with Pair show ?thesis by simp
  next
    case (Inr g')
    with Pair have ok: "updateProgress txns userId goalId gs = (Inr g', gs1)" by simp
    from ok obtain g where g: "goal_getById userId goalId gs = Inr g"
      and sp: "save_progress g (max (computed_value userId g txns) 0)
                 (progress_of (max (computed_value userId g txns) 0) (g_targetValue g)) gs = (Inr g', gs1)"
      by (rule updateProgress_saved)
    note f = save_progress_fields [OF sp]
    from f have gs1: "gs1 = store_goal g' gs" by simp
    have i1: "g_id g' = g_id g" and i2: "g_userId g' = g_userId g" using f by simp_all
    have found: "goal_getById userId goalId gs1 = Inr g'"
      unfolding gs1 using g i1 i2 by (rule goal_getById_store)
    have cv: "computed_value userId g' txns = computed_value userId g txns"
      using f by (intro computed_value_cong) simp_all
    have tv: "g_targetValue g' = g_targetValue g" using f by simp
    have "updateProgress txns userId goalId gs1
        = save_progress g' (max (computed_value userId g txns) 0)
            (progress_of (max (computed_value userId g txns) 0) (g_targetValue g)) gs1"
      using found by (simp add: updateProgress_def Let_def cv tv)
    also have "\<dots> = (Inr g', gs1)"
      using sp by (rule save_progress_again)
    finally show ?thesis using ok by simp
  qed
qed

section \<open>The health score is stored only when the predictor answers\<close>

lemma computeAndStore_cases:
  "computeAndStore ml now users txns userId hs = (r, hs') \<Longrightarrow>
     (\<exists>e. r = Inl e \<and> hs' = hs) \<or> (\<exists>h. r = Inr h \<and> hs' = hs @ [h])"
  by (auto simp: computeAndStore_def Let_def split: sum.splits if_splits)

lemma computeAndStore_rejected:
  "user_findById users userId = Inr u
   \<Longrightarrow> ml (health_history (getByDateRange txns userId (days_before 90 now) now)) u = Rejected
   \<Longrightarrow> computeAndStore ml now users txns userId hs = (Inl AxiosError, hs)"
  by (simp add: computeAndStore_def Let_def)

text \<open>
  C8. When the user exists and the call to the Health Predictor fails,
  \<open>computeAndStore\<close> returns the predictor's error to its caller and the stored
  Health Score Records are what they were; whenever \<open>computeAndStore\<close> returns an
  error nothing was stored; and in every case the records stored before the call
  are still there, unchanged and in place, with at most one new record after them.
\<close>

theorem health_failure_writes_nothing:
  "(user_findById users userId = Inr u
      \<and> ml (health_history (getByDateRange txns userId (days_before 90 now) now)) u = Rejected
     \<longrightarrow> computeAndStore ml now users txns userId hs = (Inl AxiosError, hs))
   \<and> (fst (computeAndStore ml now users txns userId hs) = Inl e
     \<longrightarrow> snd (computeAndStore ml now users txns userId hs) = hs)
   \<and> take (length hs) (snd (computeAndStore ml now users txns userId hs)) = hs"
proof -
  obtain r hs' where c: "computeAndStore ml now users txns userId hs = (r, hs')"
    by (cases "computeAndStore ml now users txns userId hs")
  from computeAndStore_cases [OF c]
  have "(r = Inl e \<longrightarrow> hs' = hs) \<and> take (length hs) hs' = hs"
    by auto
  then have "(fst (computeAndStore ml now users txns userId hs) = Inl e
     \<longrightarrow> snd (computeAndStore ml now users txns userId hs) = hs)
   \<and> take (length hs) (snd (computeAndStore ml now users txns userId hs)) = hs"
    by (simp add: c)
  then show ?thesis
    using computeAndStore_rejected [of users userId u ml txns now hs] by blast
qed

theorem health_failure_writes_nothing_witness:
  "user_findById [ex_user] 7 = Inr ex_user
   \<and> (\<lambda>h u. Rejected :: healthData response)
        (health_history (getByDateRange [ex_txn] 7 (days_before 90 ex_feb10) ex_feb10)) ex_user = Rejected
   \<and> computeAndStore (\<lambda>h u. Rejected) ex_feb10 [ex_user] [ex_txn] 7 [ex_health] = (Inl AxiosError, [ex_health])
   \<and> fst (computeAndStore (\<lambda>h u. Rejected) ex_feb10 [ex_user] [ex_txn] 7 [ex_health]) = Inl AxiosError
   \<and> snd (computeAndStore (\<lambda>h u. Rejected) ex_feb10 [ex_user] [ex_txn] 7 [ex_health]) = [ex_health]"
proof -
  have u: "user_findById [ex_user] 7 = Inr ex_user"
    by (simp add: user_findById_def ex_user_def)
  from health_failure_writes_nothing [of "[ex_user]" 7 ex_user "\<lambda>h u. Rejected" "[ex_txn]" ex_feb10 "[ex_health]" AxiosError]
  show ?thesis using u by simp
qed

section \<open>Listing an owner's transactions\<close>








lemma set_sort_desc: "set (sort_desc ts) = set ts"
  by (simp add: sort_desc_def)









end
